theory Spec2Isabelle
  imports Complex_Main "HOL-Library.List_Lexorder" "HOL-Library.Char_ord"
begin

section \<open>The thumbnail sprite generator of app.py\<close>

text \<open>
  The development follows app.py function by function. Python's unbounded integers are
  \<open>int\<close>, loop counters of \<open>range\<close> are \<open>nat\<close>. A float is a finite value, an
  infinity or NaN; the finite values are taken as exact reals, so the rounding of the binary
  representation is not part of the embedding. Where a theorem below gives a timestamp
  string in full, the time is a whole number of seconds, on which floats and reals agree.
\<close>

subsection \<open>Module constants\<close>

text \<open>
  The four numeric constants at the top of app.py, read by every function below. The
  embedding is meant for positive values, as those of app.py are: Python would raise on a
  division by a zero constant, and the functions below do not model that.
\<close>

record config =
  THUMB_WIDTH :: int
  THUMB_HEIGHT :: int
  THUMBS_PER_ROW :: int
  THUMBNAIL_INTERVAL :: int

definition app_config :: config where
  "app_config = \<lparr>THUMB_WIDTH = 160, THUMB_HEIGHT = 90, THUMBS_PER_ROW = 10,
     THUMBNAIL_INTERVAL = 5\<rparr>"

definition UPLOAD_FOLDER :: string where
  "UPLOAD_FOLDER = ''temp_videos''"

definition THUMBNAIL_FOLDER :: string where
  "THUMBNAIL_FOLDER = ''temp_thumbnails''"

definition SPRITE_FILENAME :: string where
  "SPRITE_FILENAME = ''sprite.jpg''"

definition VTT_FILENAME :: string where
  "VTT_FILENAME = ''sprite.vtt''"

subsection \<open>Python arithmetic and formatting\<close>

text \<open>\<open>x // y\<close> and \<open>x % y\<close> for a positive divisor, and \<open>int(x)\<close>, which truncates
  towards zero.\<close>

definition py_floordiv :: "real \<Rightarrow> real \<Rightarrow> real" where
  "py_floordiv x y = of_int \<lfloor>x / y\<rfloor>"

definition py_mod :: "real \<Rightarrow> real \<Rightarrow> real" where
  "py_mod x y = x - y * of_int \<lfloor>x / y\<rfloor>"

definition py_int :: "real \<Rightarrow> int" where
  "py_int x = (if 0 \<le> x then \<lfloor>x\<rfloor> else \<lceil>x\<rceil>)"

text \<open>The value of a float, and the exceptions that leave a function of app.py.
  \<open>math.ceil\<close> raises ValueError on NaN and OverflowError on an infinity; decoding the
  captured standard error of a tool raises UnicodeDecodeError when the bytes are not UTF-8.
  Each error carries what \<open>str(e)\<close> gives.\<close>

datatype pyfloat = Finite real | PosInf | NegInf | NaN

datatype error = ValueError string | OverflowError string | UnicodeDecodeError string

fun error_message :: "error \<Rightarrow> string" where
  "error_message (ValueError m) = m"
| "error_message (OverflowError m) = m"
| "error_message (UnicodeDecodeError m) = m"

text \<open>The comparison \<open>duration <= 0\<close> of a float with an integer: every comparison
  with NaN is false.\<close>

fun float_le :: "pyfloat \<Rightarrow> int \<Rightarrow> bool" where
  "float_le (Finite x) n = (x \<le> of_int n)"
| "float_le NegInf n = True"
| "float_le PosInf n = False"
| "float_le NaN n = False"

text \<open>Decimal digits of a natural number, most significant first.\<close>

fun digits :: "nat \<Rightarrow> string" where
  "digits n = (if n < 10 then [''0123456789'' ! n]
     else digits (n div 10) @ [''0123456789'' ! (n mod 10)])"

declare digits.simps [simp del]

text \<open>The format specifications \<open>:02\<close>, \<open>:03\<close> and \<open>:04d\<close> on an integer: the digits,
  filled with zeros on the left up to the width; a minus sign comes first and counts in
  the width.\<close>

definition zfill :: "nat \<Rightarrow> int \<Rightarrow> string" where
  "zfill w n =
     (let ds = digits (nat \<bar>n\<bar>) in
      if n < 0 then CHR ''-'' # replicate (w - 1 - length ds) CHR ''0'' @ ds
      else replicate (w - length ds) CHR ''0'' @ ds)"

text \<open>The four components that app.py computes from a time in seconds (lines 106 to 109,
  226 to 229 and 231 to 234 are the same code), and the string made of them.\<close>

record hms =
  hours :: int
  minutes :: int
  seconds :: int
  milliseconds :: int

definition split_time :: "real \<Rightarrow> hms" where
  "split_time t = \<lparr>hours = py_int (py_floordiv t 3600),
     minutes = py_int (py_floordiv (py_mod t 3600) 60),
     seconds = py_int (py_mod t 60),
     milliseconds = py_int ((t - of_int \<lfloor>t\<rfloor>) * 1000)\<rparr>"

definition format_time :: "hms \<Rightarrow> string" where
  "format_time c = zfill 2 (hours c) @ '':'' @ zfill 2 (minutes c) @ '':''
     @ zfill 2 (seconds c) @ ''.'' @ zfill 3 (milliseconds c)"

definition timestamp_str :: "real \<Rightarrow> string" where
  "timestamp_str t = format_time (split_time t)"

text \<open>A zero-padded \<open>HH:MM:SS.mmm\<close> string: twelve characters, digits everywhere but at
  the three separators.\<close>

definition is_digit :: "char \<Rightarrow> bool" where
  "is_digit c = (c \<in> set ''0123456789'')"

definition valid_hms_string :: "string \<Rightarrow> bool" where
  "valid_hms_string s = (length s = 12 \<and> s ! 2 = CHR '':'' \<and> s ! 5 = CHR '':''
     \<and> s ! 8 = CHR ''.'' \<and> list_all (\<lambda>i. is_digit (s ! i)) [0, 1, 3, 4, 6, 7, 9, 10, 11])"

subsection \<open>Frame sampling: the arithmetic of generate_individual_thumbnails\<close>

definition num_thumbnails :: "config \<Rightarrow> real \<Rightarrow> nat" where
  "num_thumbnails cfg duration = nat \<lceil>duration / of_int (THUMBNAIL_INTERVAL cfg)\<rceil>"

definition actual_timestamp :: "config \<Rightarrow> real \<Rightarrow> nat \<Rightarrow> real" where
  "actual_timestamp cfg duration i =
     min (of_int (int i * THUMBNAIL_INTERVAL cfg)) (duration - 0.1)"

definition thumb_filename :: "nat \<Rightarrow> string" where
  "thumb_filename i = ''thumb_'' @ zfill 4 (int i) @ ''.jpg''"

subsection \<open>Paths and the file system\<close>

text \<open>\<open>os.path.join\<close> of two components, and \<open>os.path.dirname\<close>, as posixpath has
  them. A join of three components is two joins.\<close>

definition os_path_join :: "string \<Rightarrow> string \<Rightarrow> string" where
  "os_path_join a b =
     (if b \<noteq> [] \<and> hd b = CHR ''/'' then b
      else if a = [] \<or> last a = CHR ''/'' then a @ b
      else a @ ''/'' @ b)"

definition rstrip_slash :: "string \<Rightarrow> string" where
  "rstrip_slash p = rev (dropWhile (\<lambda>c. c = CHR ''/'') (rev p))"

definition os_path_dirname :: "string \<Rightarrow> string" where
  "os_path_dirname p =
     (let head = rev (dropWhile (\<lambda>c. c \<noteq> CHR ''/'') (rev p)) in
      if head \<noteq> [] \<and> head \<noteq> replicate (length head) CHR ''/'' then rstrip_slash head
      else head)"

text \<open>
  Which file a path names. The file system is keyed by resolved paths: the components of the
  path, without the empty and \<open>.\<close> components, each \<open>..\<close> cancelling the component before
  it. A relative path is resolved from the directory the application runs in; an absolute
  one starts with the component \<open>/\<close>. There are no symbolic links.
\<close>

fun split_from :: "string \<Rightarrow> string \<Rightarrow> string list" where
  "split_from cur [] = [cur]"
| "split_from cur (c # cs) =
     (if c = CHR ''/'' then cur # split_from [] cs else split_from (cur @ [c]) cs)"

definition split_path :: "string \<Rightarrow> string list" where
  "split_path p = split_from [] p"

fun collapse :: "string list \<Rightarrow> string list \<Rightarrow> string list" where
  "collapse acc [] = acc"
| "collapse acc (c # cs) =
     (if c = [] \<or> c = ''.'' then collapse acc cs
      else if c = ''..'' then
        (if acc = [] \<or> last acc = ''..'' then collapse (acc @ [c]) cs
         else if acc = [''/''] then collapse acc cs
         else collapse (butlast acc) cs)
      else collapse (acc @ [c]) cs)"

definition resolve :: "string \<Rightarrow> string list" where
  "resolve p = collapse (if p \<noteq> [] \<and> hd p = CHR ''/'' then [''/''] else []) (split_path p)"

datatype node = File string | Dir

type_synonym filesystem = "string list \<rightharpoonup> node"

definition os_path_exists :: "filesystem \<Rightarrow> string \<Rightarrow> bool" where
  "os_path_exists f p = (f (resolve p) \<noteq> None)"

definition os_path_isfile :: "filesystem \<Rightarrow> string \<Rightarrow> bool" where
  "os_path_isfile f p = (case f (resolve p) of Some (File c) \<Rightarrow> True | _ \<Rightarrow> False)"

text \<open>The size of a file is the length of its content; a directory has some positive
  size, and app.py never asks for the size of a path that does not exist.\<close>

definition os_path_getsize :: "filesystem \<Rightarrow> string \<Rightarrow> nat" where
  "os_path_getsize f p = (case f (resolve p) of Some (File c) \<Rightarrow> length c | _ \<Rightarrow> 1)"

definition write_file :: "string \<Rightarrow> string \<Rightarrow> filesystem \<Rightarrow> filesystem" where
  "write_file p content f = f(resolve p \<mapsto> File content)"

text \<open>\<open>os.makedirs(p, exist_ok=True)\<close>: every missing directory on the way to \<open>p\<close> is
  created; a file in the way raises.\<close>

definition makedirs :: "string \<Rightarrow> filesystem \<Rightarrow> filesystem option" where
  "makedirs p f =
     (let ks = map (\<lambda>n. take n (resolve p)) [1..<Suc (length (resolve p))] in
      if list_ex (\<lambda>k. case f k of Some (File c) \<Rightarrow> True | _ \<Rightarrow> False) ks then None
      else Some (fold (\<lambda>k g. g(k \<mapsto> Dir)) ks f))"

text \<open>\<open>os.path.relpath(p, start)\<close> for two paths that stay below the directory the
  application runs in: as many \<open>..\<close> as \<open>start\<close> has components beyond the common
  prefix, then the rest of \<open>p\<close>.\<close>

fun common_prefix_length :: "string list \<Rightarrow> string list \<Rightarrow> nat" where
  "common_prefix_length (a # as) (b # bs) =
     (if a = b then Suc (common_prefix_length as bs) else 0)"
| "common_prefix_length as bs = 0"

fun sep_join :: "string list \<Rightarrow> string" where
  "sep_join [] = []"
| "sep_join [c] = c"
| "sep_join (c # cs) = c @ ''/'' @ sep_join cs"

definition os_path_relpath :: "string \<Rightarrow> string \<Rightarrow> string" where
  "os_path_relpath p start =
     (let start_list = resolve start; path_list = resolve p;
          i = common_prefix_length start_list path_list;
          rel_list = replicate (length start_list - i) ''..'' @ drop i path_list
      in if rel_list = [] then ''.'' else sep_join rel_list)"

subsection \<open>State and the world outside\<close>

text \<open>
  The state that app.py acts on is the file system and the sequence of its calls of
  \<open>subprocess.run\<close>: the argument vector, and the working directory when one is given.
\<close>

record invocation =
  argv :: "string list"
  cwd :: "string option"

record state =
  fs :: filesystem
  calls :: "invocation list"

text \<open>
  What the world outside answers. A run of an external tool returns, or raises
  CalledProcessError (a non-zero exit status), TimeoutExpired or another exception (a missing
  executable), and may have written its output file either way. The handlers of
  CalledProcessError in app.py decode the captured standard error: the outcome says whether
  that decoding raises, and with which message. The download delivers the whole content, or
  fails after having written nothing or a part. The probe answers a float or nothing.
  Writing the two text files and removing a file can fail.
\<close>

datatype outcome =
    Returned
  | CalledProcessError "string option"
  | TimeoutExpired
  | OtherException

record run =
  outcome :: outcome
  written :: "string option"

definition raised :: "run \<Rightarrow> bool" where
  "raised r = (outcome r \<noteq> Returned)"

definition decoding_raises :: "run \<Rightarrow> bool" where
  "decoding_raises r = (case outcome r of CalledProcessError (Some m) \<Rightarrow> True | _ \<Rightarrow> False)"

datatype fetched = Fetched string | FetchFailed "string option"

record world =
  fetch :: fetched
  probe :: "pyfloat option"
  extraction :: "nat \<Rightarrow> run"
  tile :: run
  manifest_writable :: bool
  vtt_writable :: bool
  removable :: "string list \<Rightarrow> bool"

definition run_tool :: "invocation \<Rightarrow> run \<Rightarrow> string \<Rightarrow> state \<Rightarrow> state" where
  "run_tool cmd r out_path s =
     s\<lparr>fs := (case written r of None \<Rightarrow> fs s | Some content \<Rightarrow> write_file out_path content (fs s)),
       calls := calls s @ [cmd]\<rparr>"

text \<open>\<open>os.remove\<close> inside \<open>try ... except OSError\<close>, after \<open>os.path.exists\<close>: the file is
  gone afterwards unless the removal raised, which is logged and nothing more.\<close>

definition remove_if_exists :: "world \<Rightarrow> string \<Rightarrow> state \<Rightarrow> state" where
  "remove_if_exists w p s =
     (if os_path_exists (fs s) p then
        (case fs s (resolve p) of
           Some (File c) \<Rightarrow>
             if removable w (resolve p) then s\<lparr>fs := (fs s)(resolve p := None)\<rparr> else s
         | _ \<Rightarrow> s)
      else s)"

subsection \<open>download_video and get_video_duration\<close>

definition download_video :: "world \<Rightarrow> string \<Rightarrow> string \<Rightarrow> state \<Rightarrow> bool \<times> state" where
  "download_video w video_url output_path s =
     (case fetch w of
        Fetched content \<Rightarrow> (True, s\<lparr>fs := write_file output_path content (fs s)\<rparr>)
      | FetchFailed None \<Rightarrow> (False, s)
      | FetchFailed (Some part) \<Rightarrow> (False, s\<lparr>fs := write_file output_path part (fs s)\<rparr>))"

definition probe_command :: "string \<Rightarrow> invocation" where
  "probe_command video_path =
     \<lparr>argv = [''ffprobe'', ''-v'', ''error'', ''-show_entries'', ''format=duration'', ''-of'',
        ''default=noprint_wrappers=1:nokey=1'', video_path],
      cwd = None\<rparr>"

definition get_video_duration :: "world \<Rightarrow> string \<Rightarrow> state \<Rightarrow> pyfloat option \<times> state" where
  "get_video_duration w video_path s =
     (probe w, s\<lparr>calls := calls s @ [probe_command video_path]\<rparr>)"

subsection \<open>generate_individual_thumbnails\<close>

definition py_str :: "int \<Rightarrow> string" where
  "py_str n = zfill 0 n"

definition extract_command :: "config \<Rightarrow> string \<Rightarrow> string \<Rightarrow> string \<Rightarrow> invocation" where
  "extract_command cfg timestamp video_path thumb_path =
     \<lparr>argv = [''ffmpeg'', ''-ss'', timestamp, ''-i'', video_path, ''-vframes'', ''1'', ''-vf'',
        ''scale='' @ py_str (THUMB_WIDTH cfg) @ '':'' @ py_str (THUMB_HEIGHT cfg),
        ''-q:v'', ''2'', thumb_path],
      cwd = None\<rparr>"

text \<open>
  The loop over \<open>range(num_thumbnails)\<close>, from the index at the head of the list on. The
  command is run. When it returned, the path joins the list if the file is there and not
  empty. When it raised CalledProcessError, the handler decodes the standard error (line
  135): if that raises, the exception leaves the function, otherwise the loop goes on, as
  it does after a timeout and after any other exception.
\<close>

fun sample_frames ::
  "config \<Rightarrow> world \<Rightarrow> string \<Rightarrow> string \<Rightarrow> real \<Rightarrow> nat list \<Rightarrow> string list \<Rightarrow> state
     \<Rightarrow> (error + string list) \<times> state" where
  "sample_frames cfg w video_path output_dir duration [] thumbnail_paths s =
     (Inr thumbnail_paths, s)"
| "sample_frames cfg w video_path output_dir duration (i # rest) thumbnail_paths s =
     (let thumb_path = os_path_join output_dir (thumb_filename i);
          s' = run_tool (extract_command cfg (timestamp_str (actual_timestamp cfg duration i))
                 video_path thumb_path) (extraction w i) thumb_path s
      in case outcome (extraction w i) of
           Returned \<Rightarrow>
             if os_path_exists (fs s') thumb_path \<and> os_path_getsize (fs s') thumb_path > 0
               then sample_frames cfg w video_path output_dir duration rest
                      (thumbnail_paths @ [thumb_path]) s'
             else sample_frames cfg w video_path output_dir duration rest thumbnail_paths s'
         | CalledProcessError (Some m) \<Rightarrow> (Inl (UnicodeDecodeError m), s')
         | CalledProcessError None \<Rightarrow>
             sample_frames cfg w video_path output_dir duration rest thumbnail_paths s'
         | TimeoutExpired \<Rightarrow>
             sample_frames cfg w video_path output_dir duration rest thumbnail_paths s'
         | OtherException \<Rightarrow>
             sample_frames cfg w video_path output_dir duration rest thumbnail_paths s')"

text \<open>\<open>math.ceil(duration / THUMBNAIL_INTERVAL)\<close> raises on NaN and on the infinities,
  before the loop.\<close>

definition generate_individual_thumbnails ::
  "config \<Rightarrow> world \<Rightarrow> string \<Rightarrow> string \<Rightarrow> pyfloat \<Rightarrow> state
     \<Rightarrow> (error + string list) \<times> state" where
  "generate_individual_thumbnails cfg w video_path output_dir duration s =
     (case duration of
        Finite d \<Rightarrow>
          sample_frames cfg w video_path output_dir d [0..<num_thumbnails cfg d] [] s
      | NaN \<Rightarrow> (Inl (ValueError ''cannot convert float NaN to integer''), s)
      | PosInf \<Rightarrow> (Inl (OverflowError ''cannot convert float infinity to integer''), s)
      | NegInf \<Rightarrow> (Inl (OverflowError ''cannot convert float infinity to integer''), s))"

subsection \<open>create_sprite_image\<close>

definition num_rows :: "config \<Rightarrow> nat \<Rightarrow> int" where
  "num_rows cfg n = max 1 \<lceil>real n / real_of_int (THUMBS_PER_ROW cfg)\<rceil>"

text \<open>The lines of input_thumbs.txt, in the order of \<open>sorted(thumbnail_paths)\<close>: Python
  compares strings character by character, by code point.\<close>

definition manifest_order :: "string list \<Rightarrow> string list" where
  "manifest_order thumbnail_paths = sort thumbnail_paths"

definition manifest_text :: "string \<Rightarrow> string list \<Rightarrow> string" where
  "manifest_text input_list_dir thumbnail_paths =
     concat (map (\<lambda>p. ''file '' @ [CHR 0x27] @ os_path_relpath p input_list_dir
                         @ [CHR 0x27, CHR 0x0A])
                 (manifest_order thumbnail_paths))"

definition tile_command :: "config \<Rightarrow> string \<Rightarrow> int \<Rightarrow> string \<Rightarrow> string \<Rightarrow> invocation" where
  "tile_command cfg input_list_path rows output_path input_list_dir =
     \<lparr>argv = [''ffmpeg'', ''-f'', ''concat'', ''-safe'', ''0'', ''-i'', input_list_path, ''-vf'',
        ''tile='' @ py_str (THUMBS_PER_ROW cfg) @ ''x'' @ py_str rows, ''-q:v'', ''2'',
        output_path],
      cwd = Some input_list_dir\<rparr>"

text \<open>
  The tool runs in \<open>input_list_dir\<close>, so the output path it is given is taken from
  there; when that directory is the empty string the process cannot be started, which
  raises FileNotFoundError. The handler of CalledProcessError decodes the standard error
  (line 190): if that raises, the exception leaves the function. Every other exception is
  answered with False. The \<open>finally\<close> clause removes the list file on every way out.
\<close>

definition create_sprite_image ::
  "config \<Rightarrow> world \<Rightarrow> string list \<Rightarrow> string \<Rightarrow> state \<Rightarrow> (error + bool) \<times> state" where
  "create_sprite_image cfg w thumbnail_paths output_path s =
     (if thumbnail_paths = [] then (Inr False, s)
      else
        let rows = num_rows cfg (length thumbnail_paths);
            input_list_path = os_path_join (os_path_dirname output_path) ''input_thumbs.txt'';
            input_list_dir = os_path_dirname input_list_path
        in if \<not> manifest_writable w then (Inr False, remove_if_exists w input_list_path s)
           else
             let s1 = s\<lparr>fs := write_file input_list_path
                          (manifest_text input_list_dir thumbnail_paths) (fs s)\<rparr>;
                 cmd = tile_command cfg input_list_path rows output_path input_list_dir
             in if input_list_dir = []
                  then (Inr False,
                        remove_if_exists w input_list_path (s1\<lparr>calls := calls s1 @ [cmd]\<rparr>))
                else
                  let s2 = run_tool cmd (tile w) (os_path_join input_list_dir output_path) s1;
                      s3 = remove_if_exists w input_list_path s2
                  in case outcome (tile w) of
                       Returned \<Rightarrow> (Inr True, s3)
                     | CalledProcessError (Some m) \<Rightarrow> (Inl (UnicodeDecodeError m), s3)
                     | CalledProcessError None \<Rightarrow> (Inr False, s3)
                     | TimeoutExpired \<Rightarrow> (Inr False, s3)
                     | OtherException \<Rightarrow> (Inr False, s3))"

subsection \<open>create_vtt_file\<close>

record cue =
  start_time_sec :: real
  end_time_sec :: real
  start_time_str :: string
  end_time_str :: string
  cue_col :: int
  cue_row :: int
  cue_x :: int
  cue_y :: int

text \<open>What the loop body computes for the index \<open>i\<close>.\<close>

definition cue_entry :: "config \<Rightarrow> real \<Rightarrow> nat \<Rightarrow> cue" where
  "cue_entry cfg interval i =
     (let start_t = real i * interval;
          end_t = min (start_t + interval) 86399.999;
          c = int i mod THUMBS_PER_ROW cfg;
          r = int i div THUMBS_PER_ROW cfg
      in \<lparr>start_time_sec = start_t, end_time_sec = end_t,
          start_time_str = timestamp_str start_t, end_time_str = timestamp_str end_t,
          cue_col = c, cue_row = r,
          cue_x = c * THUMB_WIDTH cfg, cue_y = r * THUMB_HEIGHT cfg\<rparr>)"

definition cue_entries :: "config \<Rightarrow> nat \<Rightarrow> real \<Rightarrow> cue list" where
  "cue_entries cfg n interval = map (cue_entry cfg interval) [0..<n]"

text \<open>The two writes of the loop body (lines 246 and 248).\<close>

definition cue_time_line :: "cue \<Rightarrow> string" where
  "cue_time_line e = start_time_str e @ '' --> '' @ end_time_str e @ [CHR 0x0A]"

definition cue_image_line :: "config \<Rightarrow> string \<Rightarrow> cue \<Rightarrow> string" where
  "cue_image_line cfg sprite_url_path e =
     sprite_url_path @ ''#xywh='' @ py_str (cue_x e) @ '','' @ py_str (cue_y e) @ '',''
     @ py_str (THUMB_WIDTH cfg) @ '','' @ py_str (THUMB_HEIGHT cfg) @ [CHR 0x0A, CHR 0x0A]"

definition cue_block :: "config \<Rightarrow> string \<Rightarrow> cue \<Rightarrow> string" where
  "cue_block cfg sprite_url_path e = cue_time_line e @ cue_image_line cfg sprite_url_path e"

definition vtt_text :: "config \<Rightarrow> nat \<Rightarrow> real \<Rightarrow> string \<Rightarrow> string" where
  "vtt_text cfg n interval sprite_url_path =
     ''WEBVTT'' @ [CHR 0x0A, CHR 0x0A]
     @ concat (map (cue_block cfg sprite_url_path) (cue_entries cfg n interval))"

definition create_vtt_file ::
  "config \<Rightarrow> world \<Rightarrow> string \<Rightarrow> nat \<Rightarrow> real \<Rightarrow> string \<Rightarrow> state \<Rightarrow> bool \<times> state" where
  "create_vtt_file cfg w output_dir n interval sprite_url_path s =
     (let vtt_path = os_path_join output_dir VTT_FILENAME in
      if vtt_writable w
        then (True, s\<lparr>fs := write_file vtt_path (vtt_text cfg n interval sprite_url_path) (fs s)\<rparr>)
      else (False, s))"

subsection \<open>The route /generate\<close>

text \<open>
  A response of a view: a JSON object with its status code, a text with its status code,
  the file sent by \<open>send_file\<close>, or an exception that leaves the view.
\<close>

datatype response =
    Json "(string \<times> string) list" nat
  | Text string nat
  | SendFile string
  | Unhandled

definition error_json :: "string \<Rightarrow> nat \<Rightarrow> response" where
  "error_json message code = Json [(''status'', ''error''), (''message'', message)] code"

text \<open>Lines 290 to 296. \<open>duration < THUMBNAIL_INTERVAL\<close> is false for NaN and for the
  positive infinity, and true for the negative infinity, for which \<open>duration > 0\<close> is
  false.\<close>

fun thumbnail_interval_for_vtt :: "config \<Rightarrow> pyfloat \<Rightarrow> int" where
  "thumbnail_interval_for_vtt cfg (Finite d) =
     (if d < of_int (THUMBNAIL_INTERVAL cfg)
        then (if d > 0 then max 1 \<lfloor>d / 2\<rfloor> else 1)
      else THUMBNAIL_INTERVAL cfg)"
| "thumbnail_interval_for_vtt cfg NegInf = 1"
| "thumbnail_interval_for_vtt cfg PosInf = THUMBNAIL_INTERVAL cfg"
| "thumbnail_interval_for_vtt cfg NaN = THUMBNAIL_INTERVAL cfg"

text \<open>The answer of the \<open>except\<close> clause of generate (lines 328 to 330).\<close>

definition unexpected_error :: "error \<Rightarrow> response" where
  "unexpected_error e =
     error_json (''An unexpected server error occurred: '' @ error_message e) 500"

text \<open>
  The body of the \<open>try\<close> block with its \<open>except\<close> clause. Next to the response it gives
  the value that the variable \<open>thumbnail_paths\<close> has when the block is left, which the
  \<open>finally\<close> clause reads: it is still the empty list when the sampler raised.
\<close>

definition generate_try ::
  "config \<Rightarrow> world \<Rightarrow> string \<Rightarrow> string \<Rightarrow> string \<Rightarrow> string \<Rightarrow> state
     \<Rightarrow> response \<times> string list \<times> state" where
  "generate_try cfg w job_id video_url temp_job_dir video_path s =
     (case download_video w video_url video_path s of (downloaded, s1) \<Rightarrow>
      if \<not> downloaded
        then (error_json ''Failed to download video. Please check the URL or network access.'' 500,
              [], s1)
      else case get_video_duration w video_path s1 of (duration, s2) \<Rightarrow>
      (case duration of
         None \<Rightarrow>
           (error_json ''Could not get valid video duration. Video might be corrupted or empty.'' 500,
            [], s2)
       | Some d \<Rightarrow>
           if float_le d 0
             then (error_json
                     ''Could not get valid video duration. Video might be corrupted or empty.'' 500,
                   [], s2)
           else case generate_individual_thumbnails cfg w video_path temp_job_dir d s2 of
             (sampled, s3) \<Rightarrow>
           (case sampled of
              Inl e \<Rightarrow> (unexpected_error e, [], s3)
            | Inr thumbnail_paths \<Rightarrow>
           if thumbnail_paths = []
             then (error_json
                     ''Failed to generate any valid thumbnails. Video might be unreadable or too short for extraction.''
                     500,
                   thumbnail_paths, s3)
           else case create_sprite_image cfg w thumbnail_paths
                       (os_path_join temp_job_dir SPRITE_FILENAME) s3 of
             (composed, s4) \<Rightarrow>
           (case composed of
              Inl e \<Rightarrow> (unexpected_error e, thumbnail_paths, s4)
            | Inr done \<Rightarrow>
           if \<not> done
             then (error_json
                     ''Failed to create sprite image. Check Render logs for FFmpeg details.'' 500,
                   thumbnail_paths, s4)
           else case create_vtt_file cfg w temp_job_dir (length thumbnail_paths)
                       (of_int (thumbnail_interval_for_vtt cfg d))
                       (''/thumbnails/'' @ job_id @ ''/'' @ SPRITE_FILENAME) s4 of
             (built, s5) \<Rightarrow>
           if \<not> built then (error_json ''Failed to create VTT file.'' 500, thumbnail_paths, s5)
           else (Json [(''status'', ''success''),
                       (''message'', ''Sprite and VTT generated successfully!''),
                       (''sprite_url'', ''/thumbnails/'' @ job_id @ ''/'' @ SPRITE_FILENAME),
                       (''vtt_url'', ''/thumbnails/'' @ job_id @ ''/'' @ VTT_FILENAME)] 200,
                 thumbnail_paths, s5)))))"

text \<open>The \<open>finally\<close> clause: the video, then every path of \<open>thumbnail_paths\<close>.\<close>

definition generate_finally :: "world \<Rightarrow> string \<Rightarrow> string list \<Rightarrow> state \<Rightarrow> state" where
  "generate_finally w video_path thumbnail_paths s =
     fold (remove_if_exists w) thumbnail_paths (remove_if_exists w video_path s)"

definition video_filename :: "string \<Rightarrow> string" where
  "video_filename job_id = ''input_'' @ job_id @ ''.mp4''"

text \<open>The view. \<open>job_id\<close> is the string of the fresh UUID; \<open>video_url\<close> is what
  \<open>request.form.get\<close> gave.\<close>

definition generate ::
  "config \<Rightarrow> world \<Rightarrow> string \<Rightarrow> string option \<Rightarrow> state \<Rightarrow> response \<times> state" where
  "generate cfg w job_id video_url s =
     (case video_url of
        None \<Rightarrow> (error_json ''Video URL is required.'' 400, s)
      | Some url \<Rightarrow>
          if url = [] then (error_json ''Video URL is required.'' 400, s)
          else
            let temp_job_dir = os_path_join THUMBNAIL_FOLDER job_id in
            (case makedirs temp_job_dir (fs s) of
               None \<Rightarrow> (Unhandled, s)
             | Some f \<Rightarrow>
                 let video_path = os_path_join UPLOAD_FOLDER (video_filename job_id) in
                 (case generate_try cfg w job_id url temp_job_dir video_path (s\<lparr>fs := f\<rparr>) of
                    (resp, thumbnail_paths, s') \<Rightarrow>
                      (resp, generate_finally w video_path thumbnail_paths s'))))"

subsection \<open>The route /thumbnails/job_id/filename\<close>

definition serve_thumbnail_assets :: "string \<Rightarrow> string \<Rightarrow> state \<Rightarrow> response" where
  "serve_thumbnail_assets job_id filename s =
     (let full_path = os_path_join (os_path_join THUMBNAIL_FOLDER job_id) filename in
      if \<not> os_path_exists (fs s) full_path \<or> \<not> os_path_isfile (fs s) full_path
        then Text ''File not found'' 404
      else SendFile full_path)"

text \<open>A resolved path lies inside a directory when the resolved directory is a proper
  prefix of it.\<close>

definition inside :: "string \<Rightarrow> string \<Rightarrow> bool" where
  "inside dir p = (length (resolve dir) < length (resolve p)
     \<and> take (length (resolve dir)) (resolve p) = resolve dir)"

subsection \<open>Worlds and states to run the functions on\<close>

text \<open>A world in which every tool does its work on a video of \<open>d\<close> seconds, and the file
  system of the application before any job: nothing but the two folders made at the start
  of app.py.\<close>

definition quiet_world :: "real \<Rightarrow> world" where
  "quiet_world d = \<lparr>fetch = Fetched ''video'', probe = Some (Finite d),
     extraction = (\<lambda>i. \<lparr>outcome = Returned, written = Some ''jpeg''\<rparr>),
     tile = \<lparr>outcome = Returned, written = Some ''sprite''\<rparr>,
     manifest_writable = True, vtt_writable = True, removable = (\<lambda>k. True)\<rparr>"

definition initial_state :: state where
  "initial_state = \<lparr>fs = [[''temp_videos''] \<mapsto> Dir, [''temp_thumbnails''] \<mapsto> Dir], calls = []\<rparr>"

text \<open>The same file system with the source of the application next to the two folders, as
  it is where app.py is deployed.\<close>

definition deployed_state :: state where
  "deployed_state = \<lparr>fs = [[''temp_videos''] \<mapsto> Dir, [''temp_thumbnails''] \<mapsto> Dir,
     [''app.py''] \<mapsto> File ''import os''], calls = []\<rparr>"

text \<open>A world in which the tool returns for the frame 1 and leaves an empty file, which
  is the case that line 128 of app.py tests for; the video lasts eight seconds, and the run
  of the tiling tool is \<open>r\<close>.\<close>

definition empty_frame_world :: "run \<Rightarrow> world" where
  "empty_frame_world r = \<lparr>fetch = Fetched ''video'', probe = Some (Finite 8),
     extraction = (\<lambda>i. if i = 1 then \<lparr>outcome = Returned, written = Some []\<rparr>
                         else \<lparr>outcome = Returned, written = Some ''jpeg''\<rparr>),
     tile = r,
     manifest_writable = True, vtt_writable = True, removable = (\<lambda>k. True)\<rparr>"

text \<open>A world in which every extraction runs into its timeout.\<close>

definition no_frame_world :: world where
  "no_frame_world = \<lparr>fetch = Fetched ''video'', probe = Some (Finite 8),
     extraction = (\<lambda>i. \<lparr>outcome = TimeoutExpired, written = None\<rparr>),
     tile = \<lparr>outcome = Returned, written = Some ''sprite''\<rparr>,
     manifest_writable = True, vtt_writable = True, removable = (\<lambda>k. True)\<rparr>"

text \<open>A world in which the extraction of the first frame of a video of 23 seconds ends with
  a non-zero exit status and a standard error that is not UTF-8, the decoding of which
  raises with the message \<open>m\<close>; every other extraction would do its work.\<close>

definition undecodable_world :: "string \<Rightarrow> world" where
  "undecodable_world m = \<lparr>fetch = Fetched ''video'', probe = Some (Finite 23),
     extraction = (\<lambda>i. if i = 0 then \<lparr>outcome = CalledProcessError (Some m), written = None\<rparr>
                         else \<lparr>outcome = Returned, written = Some ''jpeg''\<rparr>),
     tile = \<lparr>outcome = Returned, written = Some ''sprite''\<rparr>,
     manifest_writable = True, vtt_writable = True, removable = (\<lambda>k. True)\<rparr>"


text \<open>The string of a UUID of version 4, as \<open>str(uuid.uuid4())\<close> gives them.\<close>

definition sample_job_id :: string where
  "sample_job_id = ''123e4567-e89b-42d3-a456-426614174000''"

text \<open>A name that is one component of a path, as the string of a UUID is.\<close>

definition plain_name :: "string \<Rightarrow> bool" where
  "plain_name x = (x \<noteq> [] \<and> CHR ''/'' \<notin> set x \<and> x \<noteq> ''.'' \<and> x \<noteq> ''..'')"

section \<open>Properties\<close>

subsection \<open>Formatting\<close>

lemma digits_small: "n < 10 \<Longrightarrow> digits n = [''0123456789'' ! n]"
  by (simp add: digits.simps)

lemma digits_large: "10 \<le> n \<Longrightarrow> digits n = digits (n div 10) @ [''0123456789'' ! (n mod 10)]"
  by (subst digits.simps) simp

lemma replicate_small: "replicate 2 c = [c, c]" "replicate 3 c = [c, c, c]"
  by (simp_all add: numeral_2_eq_2 numeral_3_eq_3)

lemma zfill_minus_one: "zfill 2 (- 1) = ''-1''"
  by (simp add: zfill_def digits_small)

lemma py_int_of_int: "py_int (of_int k) = k"
  by (simp add: py_int_def)

lemma timestamp_str_zero: "timestamp_str 0 = ''00:00:00.000''"
  by code_simp

lemma thumb_filename_zero: "thumb_filename 0 = ''thumb_0000.jpg''"
  by code_simp

lemma upt_five: "[0..<5] = [0, 1, 2, 3, 4]"
  by code_simp

subsection \<open>The commands of the sampling loop\<close>

lemma sample_frames_single_calls:
  "calls (snd (sample_frames cfg w v dir d [i] ps s)) =
     calls s @ [extract_command cfg (timestamp_str (actual_timestamp cfg d i)) v
                  (os_path_join dir (thumb_filename i))]"
  by (simp add: Let_def run_tool_def split: outcome.splits option.splits)

lemma sample_frames_calls:
  assumes "\<forall>i\<in>set js. \<not> decoding_raises (extraction w i)"
  shows "calls (snd (sample_frames cfg w v dir d js ps s)) =
     calls s @ map (\<lambda>i. extract_command cfg (timestamp_str (actual_timestamp cfg d i)) v
                          (os_path_join dir (thumb_filename i))) js"
  using assms
proof (induction js arbitrary: ps s)
  case Nil
  then show ?case by simp
next
  case (Cons i js)
  then show ?case
    by (simp add: Let_def run_tool_def decoding_raises_def split: outcome.splits option.splits)
qed

lemma sample_frames_returned_calls:
  assumes "fst (sample_frames cfg w v dir d js ps s) = Inr qs"
  shows "calls (snd (sample_frames cfg w v dir d js ps s)) =
     calls s @ map (\<lambda>i. extract_command cfg (timestamp_str (actual_timestamp cfg d i)) v
                          (os_path_join dir (thumb_filename i))) js"
  using assms
proof (induction js arbitrary: ps s)
  case Nil
  then show ?case by simp
next
  case (Cons i js)
  then show ?case
    by (auto simp: Let_def run_tool_def split: outcome.splits option.splits if_splits)
qed

lemma num_thumbnails_ceiling:
  assumes "0 < d" "0 < THUMBNAIL_INTERVAL cfg"
  shows "int (num_thumbnails cfg d) = \<lceil>d / of_int (THUMBNAIL_INTERVAL cfg)\<rceil>"
proof -
  have "0 < d / of_int (THUMBNAIL_INTERVAL cfg)" using assms by simp
  then have "0 < \<lceil>d / of_int (THUMBNAIL_INTERVAL cfg)\<rceil>" by (simp add: ceiling_less_iff)
  then show ?thesis by (simp add: num_thumbnails_def)
qed

lemma num_thumbnails_short:
  assumes "0 < d" "d < of_int (THUMBNAIL_INTERVAL cfg)"
  shows "num_thumbnails cfg d = 1"
proof -
  have k: "(0::real) < of_int (THUMBNAIL_INTERVAL cfg)" using assms by linarith
  have "0 < d / of_int (THUMBNAIL_INTERVAL cfg)" "d / of_int (THUMBNAIL_INTERVAL cfg) \<le> 1"
    using assms k by simp_all
  then have "\<lceil>d / of_int (THUMBNAIL_INTERVAL cfg)\<rceil> = 1"
    by (simp add: ceiling_eq_iff)
  then show ?thesis by (simp add: num_thumbnails_def)
qed

lemma sampler_short_calls:
  assumes "0 < d" "d < of_int (THUMBNAIL_INTERVAL cfg)"
  shows "calls (snd (generate_individual_thumbnails cfg w v dir (Finite d) s)) =
     calls s @ [extract_command cfg (timestamp_str (actual_timestamp cfg d 0)) v
                  (os_path_join dir (thumb_filename 0))]"
  by (simp add: generate_individual_thumbnails_def num_thumbnails_short [OF assms]
      sample_frames_single_calls del: sample_frames.simps)

subsection \<open>Durations below a tenth of a second\<close>

text \<open>
  Claim C10. For a duration \<open>d\<close> with \<open>0 < d < 0.1\<close> the sampler runs one extraction;
  its timestamp \<open>min(0, d - 0.1) = d - 0.1\<close> is negative, the hours component computed
  from it is \<open>-1\<close>, and the seek string starts with \<open>-1:\<close>, which is no zero-padded
  \<open>HH:MM:SS.mmm\<close>.
\<close>

theorem tiny_duration_seek:
  assumes "0 < d" and "d < 0.1" and "0 < THUMBNAIL_INTERVAL cfg"
  shows "num_thumbnails cfg d = 1
    \<and> actual_timestamp cfg d 0 = d - 0.1
    \<and> actual_timestamp cfg d 0 < 0
    \<and> hours (split_time (actual_timestamp cfg d 0)) = - 1
    \<and> take 3 (timestamp_str (actual_timestamp cfg d 0)) = ''-1:''
    \<and> \<not> valid_hms_string (timestamp_str (actual_timestamp cfg d 0))
    \<and> calls (snd (generate_individual_thumbnails cfg w v dir (Finite d) s)) =
        calls s @ [extract_command cfg (timestamp_str (d - 0.1)) v
                     (os_path_join dir (thumb_filename 0))]"
proof -
  have "1 \<le> THUMBNAIL_INTERVAL cfg" using assms(3) by simp
  then have "(1::real) \<le> of_int (THUMBNAIL_INTERVAL cfg)" by linarith
  with assms have short: "d < of_int (THUMBNAIL_INTERVAL cfg)" by linarith
  then have n: "num_thumbnails cfg d = 1" by (rule num_thumbnails_short [OF assms(1)])
  have t: "actual_timestamp cfg d 0 = d - 0.1"
    using assms by (simp add: actual_timestamp_def)
  have neg: "d - 0.1 < 0" using assms by simp
  have "\<lfloor>(d - 0.1) / 3600\<rfloor> = - 1"
    using assms by (simp add: floor_eq_iff)
  then have h: "hours (split_time (d - 0.1)) = - 1"
    unfolding split_time_def py_floordiv_def by (simp only: hms.simps py_int_of_int)
  have str: "timestamp_str (d - 0.1) = ''-1:'' @ zfill 2 (minutes (split_time (d - 0.1))) @ '':''
     @ zfill 2 (seconds (split_time (d - 0.1))) @ ''.'' @ zfill 3 (milliseconds (split_time (d - 0.1)))"
    by (simp add: timestamp_str_def format_time_def h zfill_minus_one)
  have tk: "take 3 (timestamp_str (d - 0.1)) = ''-1:''"
    by (simp add: str)
  have "timestamp_str (d - 0.1) ! 0 = CHR ''-''" by (simp add: str)
  then have nv: "\<not> valid_hms_string (timestamp_str (d - 0.1))"
    by (simp add: valid_hms_string_def is_digit_def)
  have "calls (snd (generate_individual_thumbnails cfg w v dir (Finite d) s)) =
        calls s @ [extract_command cfg (timestamp_str (d - 0.1)) v
                     (os_path_join dir (thumb_filename 0))]"
    using sampler_short_calls [OF assms(1) short, of w v dir s] by (simp add: t)
  then show ?thesis using n t neg h tk nv by simp
qed

theorem tiny_duration_seek_witness:
  "(0::real) < 0.05 \<and> (0.05::real) < 0.1 \<and> 0 < THUMBNAIL_INTERVAL app_config
   \<and> num_thumbnails app_config 0.05 = 1
   \<and> actual_timestamp app_config 0.05 0 < 0
   \<and> hours (split_time (actual_timestamp app_config 0.05 0)) = - 1
   \<and> take 3 (timestamp_str (actual_timestamp app_config 0.05 0)) = ''-1:''
   \<and> \<not> valid_hms_string (timestamp_str (actual_timestamp app_config 0.05 0))"
proof -
  have h: "(0::real) < 0.05" "(0.05::real) < 0.1" "0 < THUMBNAIL_INTERVAL app_config"
    by (simp_all add: app_config_def)
  show ?thesis
    using h tiny_duration_seek [OF h, of "quiet_world 0.05" "''v.mp4''" "''out''" initial_state]
    by blast
qed

subsection \<open>The cap on cue times\<close>

text \<open>
  Claim C3 says that the start and the end of every cue are capped at 86399.999 seconds.
  create_vtt_file caps the end only (line 223). With the interval 5 the entry 17280 starts
  at 86400 seconds, written \<open>24:00:00.000\<close>, and ends at 86399.999, before its start.
\<close>

theorem cue_start_beyond_cap:
  "start_time_sec (cue_entry app_config 5 17280) = 86400
   \<and> start_time_sec (cue_entry app_config 5 17280) > 86399.999
   \<and> start_time_str (cue_entry app_config 5 17280) = ''24:00:00.000''
   \<and> end_time_sec (cue_entry app_config 5 17280) = 86399.999
   \<and> end_time_sec (cue_entry app_config 5 17280) < start_time_sec (cue_entry app_config 5 17280)"
proof -
  have "timestamp_str 86400 = ''24:00:00.000''"
    by (simp add: timestamp_str_def split_time_def format_time_def py_floordiv_def py_mod_def
        py_int_def zfill_def digits_small digits_large replicate_small)
  then show ?thesis by (simp add: cue_entry_def Let_def)
qed

subsection \<open>The order of the frames in the list file\<close>

lemma thumb_filename_1001: "thumb_filename 1001 = ''thumb_1001.jpg''"
  by (simp add: thumb_filename_def zfill_def digits_small digits_large)

lemma thumb_filename_10000: "thumb_filename 10000 = ''thumb_10000.jpg''"
  by (simp add: thumb_filename_def zfill_def digits_small digits_large)

text \<open>
  Claim C8 says that the composer hands the frames to the tiling tool in increasing order of
  the frame index. create_sprite_image sorts the paths as strings (line 166), and the names
  are padded to four digits (line 112): of the frames 1001 and 10000 of one job the frame
  10000 comes first in input_thumbs.txt.
\<close>

theorem manifest_order_five_digits:
  "manifest_order
     [os_path_join (os_path_join THUMBNAIL_FOLDER sample_job_id) (thumb_filename 1001),
      os_path_join (os_path_join THUMBNAIL_FOLDER sample_job_id) (thumb_filename 10000)]
   = [os_path_join (os_path_join THUMBNAIL_FOLDER sample_job_id) (thumb_filename 10000),
      os_path_join (os_path_join THUMBNAIL_FOLDER sample_job_id) (thumb_filename 1001)]
   \<and> manifest_text (os_path_join THUMBNAIL_FOLDER sample_job_id)
     [os_path_join (os_path_join THUMBNAIL_FOLDER sample_job_id) (thumb_filename 1001),
      os_path_join (os_path_join THUMBNAIL_FOLDER sample_job_id) (thumb_filename 10000)]
   = ''file '' @ [CHR 0x27] @ ''thumb_10000.jpg'' @ [CHR 0x27, CHR 0x0A]
     @ ''file '' @ [CHR 0x27] @ ''thumb_1001.jpg'' @ [CHR 0x27, CHR 0x0A]"
  unfolding thumb_filename_1001 thumb_filename_10000
  by code_simp

subsection \<open>Serving a file from outside the thumbnail folder\<close>

text \<open>
  Claim C7 says that a request for a path that resolves outside the workspace of the job is
  answered with a not-found error. serve_thumbnail_assets tests that the joined path exists
  and is a file, and nothing else: for the job identifier \<open>..\<close> and the file name
  \<open>app.py\<close> it sends the source of the application, which lies outside the folder of the
  thumbnails.
\<close>

theorem serve_outside_thumbnail_folder:
  "serve_thumbnail_assets ''..'' ''app.py'' deployed_state = SendFile ''temp_thumbnails/../app.py''
   \<and> resolve ''temp_thumbnails/../app.py'' = [''app.py'']
   \<and> \<not> inside THUMBNAIL_FOLDER ''temp_thumbnails/../app.py''"
  by code_simp

theorem serve_outside_thumbnail_folder_witness:
  "os_path_exists (fs deployed_state) ''temp_thumbnails/../app.py''
   \<and> os_path_isfile (fs deployed_state) ''temp_thumbnails/../app.py''
   \<and> serve_thumbnail_assets ''..'' ''app.py'' deployed_state = SendFile ''temp_thumbnails/../app.py''"
proof -
  have "os_path_exists (fs deployed_state) ''temp_thumbnails/../app.py''
    \<and> os_path_isfile (fs deployed_state) ''temp_thumbnails/../app.py''"
    by code_simp
  then show ?thesis using serve_outside_thumbnail_folder by simp
qed

subsection \<open>The paths of a job\<close>

lemma split_from_plain: "CHR ''/'' \<notin> set a \<Longrightarrow> split_from cur a = [cur @ a]"
  by (induction a arbitrary: cur) auto

lemma split_from_sep:
  "CHR ''/'' \<notin> set a \<Longrightarrow> split_from cur (a @ CHR ''/'' # rest) = (cur @ a) # split_from [] rest"
  by (induction a arbitrary: cur) auto

lemma resolve_two:
  assumes "plain_name a" and "plain_name b"
  shows "resolve (a @ ''/'' @ b) = [a, b]"
proof -
  have "hd (a @ ''/'' @ b) \<noteq> CHR ''/''"
    using assms(1) by (cases a) (auto simp: plain_name_def)
  moreover have "split_path (a @ ''/'' @ b) = [a, b]"
    using assms by (simp add: split_path_def split_from_sep split_from_plain plain_name_def)
  ultimately show ?thesis
    using assms by (simp add: resolve_def plain_name_def)
qed

lemma resolve_three:
  assumes "plain_name a" and "plain_name b" and "plain_name c"
  shows "resolve (a @ ''/'' @ b @ ''/'' @ c) = [a, b, c]"
proof -
  have "hd (a @ ''/'' @ b @ ''/'' @ c) \<noteq> CHR ''/''"
    using assms(1) by (cases a) (auto simp: plain_name_def)
  moreover have "split_path (a @ ''/'' @ b @ ''/'' @ c) = [a, b, c]"
    using assms by (simp add: split_path_def split_from_sep split_from_plain plain_name_def)
  ultimately show ?thesis
    using assms by (simp add: resolve_def plain_name_def)
qed

lemma os_path_join_plain:
  assumes "a \<noteq> []" and "last a \<noteq> CHR ''/''" and "plain_name b"
  shows "os_path_join a b = a @ ''/'' @ b"
  using assms by (cases b) (auto simp: os_path_join_def plain_name_def)

lemma plain_folders: "plain_name THUMBNAIL_FOLDER" "plain_name UPLOAD_FOLDER"
  "plain_name SPRITE_FILENAME" "plain_name VTT_FILENAME"
  by (simp_all add: plain_name_def THUMBNAIL_FOLDER_def UPLOAD_FOLDER_def SPRITE_FILENAME_def
      VTT_FILENAME_def)

lemma last_plain:
  assumes "plain_name b"
  shows "last (a @ ''/'' @ b) \<noteq> CHR ''/''"
proof -
  have ne: "b \<noteq> []" using assms by (simp add: plain_name_def)
  then have "last b \<in> set b" by simp
  moreover have "CHR ''/'' \<notin> set b" using assms by (simp add: plain_name_def)
  ultimately have "last b \<noteq> CHR ''/''" by metis
  with ne show ?thesis by simp
qed

lemma job_dir_path:
  assumes "plain_name job_id"
  shows "os_path_join THUMBNAIL_FOLDER job_id = THUMBNAIL_FOLDER @ ''/'' @ job_id"
  using assms by (intro os_path_join_plain) (simp_all add: THUMBNAIL_FOLDER_def)

lemma job_file_key:
  assumes "plain_name job_id" and "plain_name name"
  shows "resolve (os_path_join (os_path_join THUMBNAIL_FOLDER job_id) name)
     = [THUMBNAIL_FOLDER, job_id, name]"
proof -
  have "os_path_join (THUMBNAIL_FOLDER @ ''/'' @ job_id) name
      = (THUMBNAIL_FOLDER @ ''/'' @ job_id) @ ''/'' @ name"
    using assms last_plain [OF assms(1), of THUMBNAIL_FOLDER]
    by (intro os_path_join_plain) simp_all
  then show ?thesis
    using resolve_three [OF plain_folders(1) assms] by (simp add: job_dir_path assms(1))
qed

lemma job_dir_key:
  assumes "plain_name job_id"
  shows "resolve (os_path_join THUMBNAIL_FOLDER job_id) = [THUMBNAIL_FOLDER, job_id]"
  using resolve_two [OF plain_folders(1) assms] by (simp add: job_dir_path assms)

lemma plain_video_name:
  assumes "plain_name job_id"
  shows "plain_name (video_filename job_id)"
  using assms by (auto simp: plain_name_def video_filename_def)

lemma job_video_key:
  assumes "plain_name job_id"
  shows "resolve (os_path_join UPLOAD_FOLDER (video_filename job_id))
     = [UPLOAD_FOLDER, video_filename job_id]"
proof -
  have "os_path_join UPLOAD_FOLDER (video_filename job_id)
      = UPLOAD_FOLDER @ ''/'' @ (video_filename job_id)"
    using plain_video_name [OF assms]
    by (intro os_path_join_plain) (simp_all add: UPLOAD_FOLDER_def)
  then show ?thesis
    using resolve_two [OF plain_folders(2) plain_video_name [OF assms]] by simp
qed

lemma digits_are_digits: "set (digits n) \<subseteq> set ''0123456789''"
proof (induction n rule: digits.induct)
  case (1 n)
  have m: "''0123456789'' ! (n mod 10) \<in> set ''0123456789''"
    by (rule nth_mem) simp
  show ?case
  proof (cases "n < 10")
    case True
    then have "''0123456789'' ! n \<in> set ''0123456789''" by (intro nth_mem) simp
    with True show ?thesis by (simp add: digits_small)
  next
    case False
    with 1 m show ?thesis by (simp add: digits_large)
  qed
qed

lemma plain_thumb_filename: "plain_name (thumb_filename i)"
proof -
  have "CHR ''/'' \<notin> set (digits i)" using digits_are_digits [of i] by auto
  then show ?thesis
    by (auto simp: plain_name_def thumb_filename_def zfill_def Let_def)
qed

lemma thumb_filename_not_asset:
  "thumb_filename i \<noteq> SPRITE_FILENAME" "thumb_filename i \<noteq> VTT_FILENAME"
  by (simp_all add: thumb_filename_def SPRITE_FILENAME_def VTT_FILENAME_def)

subsection \<open>What each step leaves untouched\<close>

lemma remove_if_exists_calls: "calls (remove_if_exists w p s) = calls s"
  by (simp add: remove_if_exists_def split: option.splits node.splits)

lemma remove_if_exists_other:
  assumes "k \<noteq> resolve p"
  shows "fs (remove_if_exists w p s) k = fs s k"
  using assms by (simp add: remove_if_exists_def split: option.splits node.splits)

lemma remove_if_exists_file:
  assumes "fs s (resolve p) = Some (File c)" and "removable w (resolve p)"
  shows "fs (remove_if_exists w p s) (resolve p) = None"
  using assms by (simp add: remove_if_exists_def os_path_exists_def)

lemma remove_if_exists_none:
  assumes "fs s k = None"
  shows "fs (remove_if_exists w p s) k = None"
  using assms
  by (cases "k = resolve p")
     (auto simp: remove_if_exists_def os_path_exists_def split: option.splits node.splits)

lemma fold_remove_other:
  assumes "\<forall>p\<in>set ps. k \<noteq> resolve p"
  shows "fs (fold (remove_if_exists w) ps s) k = fs s k"
  using assms by (induction ps arbitrary: s) (simp_all add: remove_if_exists_other)

lemma fold_remove_calls: "calls (fold (remove_if_exists w) ps s) = calls s"
  by (induction ps arbitrary: s) (simp_all add: remove_if_exists_calls)

lemma sample_frames_fs_other:
  assumes "\<forall>i\<in>set js. k \<noteq> resolve (os_path_join dir (thumb_filename i))"
  shows "fs (snd (sample_frames cfg w v dir d js ps s)) k = fs s k"
  using assms
proof (induction js arbitrary: ps s)
  case Nil
  then show ?case by simp
next
  case (Cons i js)
  then show ?case
    by (auto simp: Let_def run_tool_def write_file_def split: outcome.splits option.splits)
qed

lemma sampler_fs_other:
  assumes "\<forall>i. k \<noteq> resolve (os_path_join dir (thumb_filename i))"
  shows "fs (snd (generate_individual_thumbnails cfg w v dir duration s)) k = fs s k"
  using assms
  by (cases duration) (simp_all add: generate_individual_thumbnails_def sample_frames_fs_other)

lemma sample_frames_none_survive:
  assumes "\<forall>i\<in>set js. outcome (extraction w i) = TimeoutExpired"
  shows "fst (sample_frames cfg w v dir d js ps s) = Inr ps"
  using assms by (induction js arbitrary: ps s) (simp_all add: Let_def)

lemma sample_frames_all_survive:
  assumes "\<forall>i\<in>set js. outcome (extraction w i) = Returned
             \<and> (\<exists>c. written (extraction w i) = Some c \<and> c \<noteq> [])"
  shows "fst (sample_frames cfg w v dir d js ps s) =
     Inr (ps @ map (\<lambda>i. os_path_join dir (thumb_filename i)) js)"
  using assms
proof (induction js arbitrary: ps s)
  case Nil
  then show ?case by simp
next
  case (Cons i js)
  then obtain c where c: "outcome (extraction w i) = Returned"
    "written (extraction w i) = Some c" "c \<noteq> []"
    by auto
  have rest: "\<forall>i\<in>set js. outcome (extraction w i) = Returned
             \<and> (\<exists>c. written (extraction w i) = Some c \<and> c \<noteq> [])"
    using Cons.prems by simp
  show ?case
    using c Cons.IH [OF rest]
    by (simp add: Let_def run_tool_def write_file_def os_path_exists_def os_path_getsize_def)
qed

lemma sample_frames_paths:
  assumes "fst (sample_frames cfg w v dir d js ps s) = Inr qs"
  shows "set qs \<subseteq> set ps \<union> (\<lambda>i. os_path_join dir (thumb_filename i)) ` set js"
  using assms
proof (induction js arbitrary: ps s)
  case Nil
  then show ?case by auto
next
  case (Cons i js)
  then show ?case
    by (fastforce simp: Let_def split: outcome.splits option.splits if_splits)
qed

lemma fold_mkdir_other:
  "k \<notin> set ks \<Longrightarrow> fold (\<lambda>k g. g(k \<mapsto> Dir)) ks f k = f k"
  by (induction ks arbitrary: f) auto

lemma makedirs_other:
  assumes "makedirs p f = Some g" and "length (resolve p) < length k"
  shows "g k = f k"
proof -
  let ?ks = "map (\<lambda>n. take n (resolve p)) [1..<Suc (length (resolve p))]"
  have "\<forall>x\<in>set ?ks. length x \<le> length (resolve p)" by simp
  with assms(2) have nk: "k \<notin> set ?ks" by (metis not_less)
  have g: "g = fold (\<lambda>k g. g(k \<mapsto> Dir)) ?ks f"
    using assms(1) unfolding makedirs_def Let_def by (simp split: if_splits)
  show ?thesis unfolding g by (rule fold_mkdir_other [OF nk])
qed

lemma download_video_fs_other:
  assumes "download_video w url p s = (ok, s1)" and "k \<noteq> resolve p"
  shows "fs s1 k = fs s k"
  using assms
  by (auto simp: download_video_def write_file_def split: fetched.splits option.splits)

lemma get_video_duration_fs:
  assumes "get_video_duration w p s1 = (r, s2)"
  shows "fs s2 = fs s1"
  using assms by (auto simp: get_video_duration_def)

lemma create_sprite_image_calls:
  assumes "ps \<noteq> []" and "manifest_writable w"
  shows "calls (snd (create_sprite_image cfg w ps out s)) =
     calls s @ [tile_command cfg (os_path_join (os_path_dirname out) ''input_thumbs.txt'')
                  (num_rows cfg (length ps)) out
                  (os_path_dirname (os_path_join (os_path_dirname out) ''input_thumbs.txt''))]"
  using assms
  by (simp add: create_sprite_image_def Let_def remove_if_exists_calls run_tool_def
      split: outcome.splits option.splits)

lemma create_sprite_image_fst:
  assumes "ps \<noteq> []" and "manifest_writable w"
    and "os_path_dirname (os_path_join (os_path_dirname out) ''input_thumbs.txt'') \<noteq> []"
  shows "fst (create_sprite_image cfg w ps out s) =
     (case outcome (tile w) of
        Returned \<Rightarrow> Inr True
      | CalledProcessError None \<Rightarrow> Inr False
      | CalledProcessError (Some m) \<Rightarrow> Inl (UnicodeDecodeError m)
      | TimeoutExpired \<Rightarrow> Inr False
      | OtherException \<Rightarrow> Inr False)"
  using assms
  by (simp add: create_sprite_image_def Let_def split: outcome.splits option.splits)

lemma create_sprite_image_fs_other:
  assumes "k \<noteq> resolve (os_path_join (os_path_dirname out) ''input_thumbs.txt'')"
    and "k \<noteq> resolve (os_path_join
            (os_path_dirname (os_path_join (os_path_dirname out) ''input_thumbs.txt'')) out)"
  shows "fs (snd (create_sprite_image cfg w ps out s)) k = fs s k"
  using assms
  by (simp add: create_sprite_image_def Let_def remove_if_exists_other run_tool_def
      write_file_def split: outcome.splits option.splits)

lemma create_vtt_file_fst: "fst (create_vtt_file cfg w dir n iv u s) = vtt_writable w"
  by (simp add: create_vtt_file_def Let_def)

lemma create_vtt_file_fs_other:
  assumes "k \<noteq> resolve (os_path_join dir VTT_FILENAME)"
  shows "fs (snd (create_vtt_file cfg w dir n iv u s)) k = fs s k"
  using assms by (simp add: create_vtt_file_def Let_def write_file_def)

lemma create_vtt_file_calls: "calls (snd (create_vtt_file cfg w dir n iv u s)) = calls s"
  by (simp add: create_vtt_file_def Let_def)

lemma create_vtt_file_written:
  assumes "vtt_writable w"
  shows "fs (snd (create_vtt_file cfg w dir n iv u s)) (resolve (os_path_join dir VTT_FILENAME))
     = Some (File (vtt_text cfg n iv u))"
  using assms by (simp add: create_vtt_file_def Let_def write_file_def)

subsection \<open>The paths of the sample job\<close>

lemma job_dir: "os_path_join THUMBNAIL_FOLDER sample_job_id
    = ''temp_thumbnails/123e4567-e89b-42d3-a456-426614174000''"
  by code_simp

lemma job_video: "os_path_join UPLOAD_FOLDER (video_filename sample_job_id)
    = ''temp_videos/input_123e4567-e89b-42d3-a456-426614174000.mp4''"
  by code_simp

lemma job_names: "thumb_filename 0 = ''thumb_0000.jpg''" "thumb_filename (Suc 0) = ''thumb_0001.jpg''"
  by code_simp+

lemma thumb_filename_one: "thumb_filename 1 = ''thumb_0001.jpg''"
  by code_simp

lemma job_paths:
  "os_path_join ''temp_thumbnails/123e4567-e89b-42d3-a456-426614174000'' ''thumb_0000.jpg''
     = ''temp_thumbnails/123e4567-e89b-42d3-a456-426614174000/thumb_0000.jpg''"
  "os_path_join ''temp_thumbnails/123e4567-e89b-42d3-a456-426614174000'' ''thumb_0001.jpg''
     = ''temp_thumbnails/123e4567-e89b-42d3-a456-426614174000/thumb_0001.jpg''"
  "os_path_join ''temp_thumbnails/123e4567-e89b-42d3-a456-426614174000'' SPRITE_FILENAME
     = ''temp_thumbnails/123e4567-e89b-42d3-a456-426614174000/sprite.jpg''"
  "os_path_join ''temp_thumbnails/123e4567-e89b-42d3-a456-426614174000'' VTT_FILENAME
     = ''temp_thumbnails/123e4567-e89b-42d3-a456-426614174000/sprite.vtt''"
  "os_path_dirname ''temp_thumbnails/123e4567-e89b-42d3-a456-426614174000/sprite.jpg''
     = ''temp_thumbnails/123e4567-e89b-42d3-a456-426614174000''"
  "os_path_join ''temp_thumbnails/123e4567-e89b-42d3-a456-426614174000'' ''input_thumbs.txt''
     = ''temp_thumbnails/123e4567-e89b-42d3-a456-426614174000/input_thumbs.txt''"
  "os_path_dirname ''temp_thumbnails/123e4567-e89b-42d3-a456-426614174000/input_thumbs.txt''
     = ''temp_thumbnails/123e4567-e89b-42d3-a456-426614174000''"
  "os_path_join ''temp_thumbnails/123e4567-e89b-42d3-a456-426614174000''
       ''temp_thumbnails/123e4567-e89b-42d3-a456-426614174000/sprite.jpg''
     = ''temp_thumbnails/123e4567-e89b-42d3-a456-426614174000/temp_thumbnails/123e4567-e89b-42d3-a456-426614174000/sprite.jpg''"
  by code_simp+

lemma job_keys:
  "resolve ''temp_thumbnails/123e4567-e89b-42d3-a456-426614174000''
     = [''temp_thumbnails'', ''123e4567-e89b-42d3-a456-426614174000'']"
  "resolve ''temp_videos/input_123e4567-e89b-42d3-a456-426614174000.mp4''
     = [''temp_videos'', ''input_123e4567-e89b-42d3-a456-426614174000.mp4'']"
  "resolve ''temp_thumbnails/123e4567-e89b-42d3-a456-426614174000/thumb_0000.jpg''
     = [''temp_thumbnails'', ''123e4567-e89b-42d3-a456-426614174000'', ''thumb_0000.jpg'']"
  "resolve ''temp_thumbnails/123e4567-e89b-42d3-a456-426614174000/thumb_0001.jpg''
     = [''temp_thumbnails'', ''123e4567-e89b-42d3-a456-426614174000'', ''thumb_0001.jpg'']"
  "resolve ''temp_thumbnails/123e4567-e89b-42d3-a456-426614174000/sprite.vtt''
     = [''temp_thumbnails'', ''123e4567-e89b-42d3-a456-426614174000'', ''sprite.vtt'']"
  "resolve ''temp_thumbnails/123e4567-e89b-42d3-a456-426614174000/input_thumbs.txt''
     = [''temp_thumbnails'', ''123e4567-e89b-42d3-a456-426614174000'', ''input_thumbs.txt'']"
  "resolve ''temp_thumbnails/123e4567-e89b-42d3-a456-426614174000/temp_thumbnails/123e4567-e89b-42d3-a456-426614174000/sprite.jpg''
     = [''temp_thumbnails'', ''123e4567-e89b-42d3-a456-426614174000'',
        ''temp_thumbnails'', ''123e4567-e89b-42d3-a456-426614174000'', ''sprite.jpg'']"
  by code_simp+

lemma upt_small: "[0..<2] = [0, 1]" "[1..<Suc (Suc (Suc 0))] = [1, 2]"
  by code_simp+

lemma job_makedirs:
  "makedirs ''temp_thumbnails/123e4567-e89b-42d3-a456-426614174000'' (fs initial_state)
    = Some ((fs initial_state)([''temp_thumbnails''] \<mapsto> Dir,
         [''temp_thumbnails'', ''123e4567-e89b-42d3-a456-426614174000''] \<mapsto> Dir))"
  by (simp add: makedirs_def job_keys upt_small initial_state_def)

lemma sample_job_id_plain: "plain_name sample_job_id"
  by (simp add: plain_name_def sample_job_id_def)

subsection \<open>A job without a surviving frame\<close>

lemma asset_key_untouched:
  assumes j: "plain_name job_id" and n: "plain_name name"
    and na: "\<forall>i. thumb_filename i \<noteq> name"
    and mk: "makedirs (os_path_join THUMBNAIL_FOLDER job_id) (fs s) = Some f"
    and dl: "download_video w url (os_path_join UPLOAD_FOLDER (video_filename job_id))
           (s\<lparr>fs := f\<rparr>) = (ok, s1)"
    and pr: "get_video_duration w (os_path_join UPLOAD_FOLDER (video_filename job_id)) s1
           = (r, s2)"
    and sm: "generate_individual_thumbnails cfg w
           (os_path_join UPLOAD_FOLDER (video_filename job_id))
           (os_path_join THUMBNAIL_FOLDER job_id) d s2 = (ps, s3)"
  shows "fs (remove_if_exists w (os_path_join UPLOAD_FOLDER (video_filename job_id)) s3)
           (resolve (os_path_join (os_path_join THUMBNAIL_FOLDER job_id) name))
       = fs s (resolve (os_path_join (os_path_join THUMBNAIL_FOLDER job_id) name))"
proof -
  let ?k = "[THUMBNAIL_FOLDER, job_id, name]"
  let ?v = "os_path_join UPLOAD_FOLDER (video_filename job_id)"
  have k: "resolve (os_path_join (os_path_join THUMBNAIL_FOLDER job_id) name) = ?k"
    by (rule job_file_key [OF j n])
  have kv: "?k \<noteq> resolve ?v"
    by (simp add: job_video_key [OF j])
  have kt: "\<forall>i. ?k \<noteq> resolve (os_path_join (os_path_join THUMBNAIL_FOLDER job_id) (thumb_filename i))"
    using na by (auto simp: job_file_key [OF j plain_thumb_filename])
  have "fs (remove_if_exists w ?v s3) ?k = fs s3 ?k"
    by (rule remove_if_exists_other [OF kv])
  also have "fs s3 ?k = fs s2 ?k"
    using sampler_fs_other [OF kt, of cfg w ?v d s2] sm by simp
  also have "fs s2 ?k = fs s1 ?k"
    using get_video_duration_fs [OF pr] by simp
  also have "fs s1 ?k = f ?k"
    using download_video_fs_other [OF dl kv] by simp
  also have "f ?k = fs s ?k"
    by (rule makedirs_other [OF mk]) (simp add: job_dir_key [OF j])
  finally show ?thesis by (simp only: k)
qed

text \<open>
  Claim C6. On the empty list the composer returns failure at once and leaves the state as
  it is. In a job whose download and probe succeeded and whose sampling pass returned no
  frame, the response is the error about thumbnails with the status 500, the paths of the
  sprite image and of the cue file hold what they held before the job, and the only
  commands run after the probe are the extractions: the tiling tool is never called.
\<close>

theorem no_frames_no_sprite:
  assumes "plain_name job_id" and "url \<noteq> []"
    and "makedirs (os_path_join THUMBNAIL_FOLDER job_id) (fs s) = Some f"
    and "download_video w url (os_path_join UPLOAD_FOLDER (video_filename job_id))
           (s\<lparr>fs := f\<rparr>) = (True, s1)"
    and "get_video_duration w (os_path_join UPLOAD_FOLDER (video_filename job_id)) s1
           = (Some (Finite d), s2)"
    and "0 < d"
    and "generate_individual_thumbnails cfg w
           (os_path_join UPLOAD_FOLDER (video_filename job_id))
           (os_path_join THUMBNAIL_FOLDER job_id) (Finite d) s2 = (Inr [], s3)"
  shows "create_sprite_image cfg w []
           (os_path_join (os_path_join THUMBNAIL_FOLDER job_id) SPRITE_FILENAME) s3
           = (Inr False, s3)
    \<and> fst (generate cfg w job_id (Some url) s)
        = error_json ''Failed to generate any valid thumbnails. Video might be unreadable or too short for extraction.'' 500
    \<and> fs (snd (generate cfg w job_id (Some url) s))
          (resolve (os_path_join (os_path_join THUMBNAIL_FOLDER job_id) SPRITE_FILENAME))
        = fs s (resolve (os_path_join (os_path_join THUMBNAIL_FOLDER job_id) SPRITE_FILENAME))
    \<and> fs (snd (generate cfg w job_id (Some url) s))
          (resolve (os_path_join (os_path_join THUMBNAIL_FOLDER job_id) VTT_FILENAME))
        = fs s (resolve (os_path_join (os_path_join THUMBNAIL_FOLDER job_id) VTT_FILENAME))
    \<and> calls (snd (generate cfg w job_id (Some url) s))
        = calls s2 @ map (\<lambda>i. extract_command cfg (timestamp_str (actual_timestamp cfg d i))
                            (os_path_join UPLOAD_FOLDER (video_filename job_id))
                            (os_path_join (os_path_join THUMBNAIL_FOLDER job_id) (thumb_filename i)))
                      [0..<num_thumbnails cfg d]"
proof -
  let ?v = "os_path_join UPLOAD_FOLDER (video_filename job_id)"
  let ?dir = "os_path_join THUMBNAIL_FOLDER job_id"
  have g: "generate cfg w job_id (Some url) s
      = (error_json ''Failed to generate any valid thumbnails. Video might be unreadable or too short for extraction.'' 500,
         remove_if_exists w ?v s3)"
    using assms(2,6)
    by (simp add: generate_def generate_try_def generate_finally_def Let_def assms(3,4,5,7))
  have c: "create_sprite_image cfg w []
           (os_path_join (os_path_join THUMBNAIL_FOLDER job_id) SPRITE_FILENAME) s3
           = (Inr False, s3)"
    by (simp add: create_sprite_image_def)
  have sp: "fs (remove_if_exists w ?v s3)
          (resolve (os_path_join (os_path_join THUMBNAIL_FOLDER job_id) SPRITE_FILENAME))
        = fs s (resolve (os_path_join (os_path_join THUMBNAIL_FOLDER job_id) SPRITE_FILENAME))"
    by (rule asset_key_untouched [OF assms(1) plain_folders(3) _ assms(3,4,5,7)])
       (simp add: thumb_filename_not_asset)
  have vt: "fs (remove_if_exists w ?v s3)
          (resolve (os_path_join (os_path_join THUMBNAIL_FOLDER job_id) VTT_FILENAME))
        = fs s (resolve (os_path_join (os_path_join THUMBNAIL_FOLDER job_id) VTT_FILENAME))"
    by (rule asset_key_untouched [OF assms(1) plain_folders(4) _ assms(3,4,5,7)])
       (simp add: thumb_filename_not_asset)
  have sf: "sample_frames cfg w ?v ?dir d [0..<num_thumbnails cfg d] [] s2 = (Inr [], s3)"
    using assms(7) by (simp add: generate_individual_thumbnails_def)
  then have "fst (sample_frames cfg w ?v ?dir d [0..<num_thumbnails cfg d] [] s2) = Inr []"
    by simp
  from sample_frames_returned_calls [OF this]
  have cl: "calls (remove_if_exists w ?v s3)
        = calls s2 @ map (\<lambda>i. extract_command cfg (timestamp_str (actual_timestamp cfg d i)) ?v
                            (os_path_join (os_path_join THUMBNAIL_FOLDER job_id) (thumb_filename i)))
                      [0..<num_thumbnails cfg d]"
    by (simp add: remove_if_exists_calls sf)
  show ?thesis
    unfolding g using c sp vt cl by simp
qed

lemma no_frame_world_fields:
  "fetch no_frame_world = Fetched ''video''" "probe no_frame_world = Some (Finite 8)"
  "outcome (extraction no_frame_world i) = TimeoutExpired"
  by (simp_all add: no_frame_world_def)

theorem no_frames_no_sprite_witness:
  "plain_name sample_job_id
   \<and> fst (generate app_config no_frame_world sample_job_id (Some ''http://example.com/v.mp4'')
            initial_state)
       = error_json ''Failed to generate any valid thumbnails. Video might be unreadable or too short for extraction.'' 500
   \<and> \<not> os_path_exists
         (fs (snd (generate app_config no_frame_world sample_job_id
                     (Some ''http://example.com/v.mp4'') initial_state)))
         (os_path_join (os_path_join THUMBNAIL_FOLDER sample_job_id) SPRITE_FILENAME)
   \<and> \<not> os_path_exists
         (fs (snd (generate app_config no_frame_world sample_job_id
                     (Some ''http://example.com/v.mp4'') initial_state)))
         (os_path_join (os_path_join THUMBNAIL_FOLDER sample_job_id) VTT_FILENAME)"
proof -
  let ?url = "''http://example.com/v.mp4''"
  let ?v = "os_path_join UPLOAD_FOLDER (video_filename sample_job_id)"
  let ?dir = "os_path_join THUMBNAIL_FOLDER sample_job_id"
  let ?f = "(fs initial_state)([''temp_thumbnails''] \<mapsto> Dir,
         [''temp_thumbnails'', ''123e4567-e89b-42d3-a456-426614174000''] \<mapsto> Dir)"
  let ?s1 = "snd (download_video no_frame_world ?url ?v (initial_state\<lparr>fs := ?f\<rparr>))"
  let ?s2 = "snd (get_video_duration no_frame_world ?v ?s1)"
  let ?s3 = "snd (generate_individual_thumbnails app_config no_frame_world ?v ?dir (Finite 8) ?s2)"
  have h2: "?url \<noteq> []" by simp
  have h3: "makedirs ?dir (fs initial_state) = Some ?f"
    by (simp only: job_dir job_makedirs)
  have h4: "download_video no_frame_world ?url ?v (initial_state\<lparr>fs := ?f\<rparr>) = (True, ?s1)"
    by (simp add: download_video_def no_frame_world_fields)
  have h5: "get_video_duration no_frame_world ?v ?s1 = (Some (Finite 8), ?s2)"
    by (simp add: get_video_duration_def no_frame_world_fields)
  have h6: "(0::real) < 8" by simp
  have "fst (generate_individual_thumbnails app_config no_frame_world ?v ?dir (Finite 8) ?s2) = Inr []"
    by (simp add: generate_individual_thumbnails_def sample_frames_none_survive
        no_frame_world_fields)
  then have h7: "generate_individual_thumbnails app_config no_frame_world ?v ?dir (Finite 8) ?s2
      = (Inr [], ?s3)"
    by (simp add: prod_eq_iff)
  have e1: "fs initial_state (resolve (os_path_join ?dir SPRITE_FILENAME)) = None"
    by (simp add: job_file_key [OF sample_job_id_plain plain_folders(3)] initial_state_def)
  have e2: "fs initial_state (resolve (os_path_join ?dir VTT_FILENAME)) = None"
    by (simp add: job_file_key [OF sample_job_id_plain plain_folders(4)] initial_state_def)
  show ?thesis
    using no_frames_no_sprite [OF sample_job_id_plain h2 h3 h4 h5 h6 h7] e1 e2
      sample_job_id_plain
    by (simp add: os_path_exists_def)
qed

subsection \<open>A job that leaves a frame file behind\<close>

lemma num_eight: "num_thumbnails app_config 8 = 2"
  by (simp add: num_thumbnails_def app_config_def)

lemma empty_frame_world_fields:
  "fetch (empty_frame_world r) = Fetched ''video''"
  "probe (empty_frame_world r) = Some (Finite 8)"
  "tile (empty_frame_world r) = r"
  "manifest_writable (empty_frame_world r)" "vtt_writable (empty_frame_world r)"
  "removable (empty_frame_world r) k"
  by (simp_all add: empty_frame_world_def)

lemma job_sampler:
  "generate_individual_thumbnails app_config (empty_frame_world r)
     ''temp_videos/input_123e4567-e89b-42d3-a456-426614174000.mp4''
     ''temp_thumbnails/123e4567-e89b-42d3-a456-426614174000'' (Finite 8) s
   = (Inr [''temp_thumbnails/123e4567-e89b-42d3-a456-426614174000/thumb_0000.jpg''],
      s\<lparr>fs := (fs s)
           ([''temp_thumbnails'', ''123e4567-e89b-42d3-a456-426614174000'', ''thumb_0000.jpg'']
              \<mapsto> File ''jpeg'',
            [''temp_thumbnails'', ''123e4567-e89b-42d3-a456-426614174000'', ''thumb_0001.jpg'']
              \<mapsto> File []),
        calls := calls s @
          [extract_command app_config (timestamp_str (actual_timestamp app_config 8 0))
             ''temp_videos/input_123e4567-e89b-42d3-a456-426614174000.mp4''
             ''temp_thumbnails/123e4567-e89b-42d3-a456-426614174000/thumb_0000.jpg'',
           extract_command app_config (timestamp_str (actual_timestamp app_config 8 1))
             ''temp_videos/input_123e4567-e89b-42d3-a456-426614174000.mp4''
             ''temp_thumbnails/123e4567-e89b-42d3-a456-426614174000/thumb_0001.jpg'']\<rparr>)"
  by (simp add: generate_individual_thumbnails_def num_eight upt_small
      run_tool_def write_file_def os_path_exists_def os_path_getsize_def Let_def
      empty_frame_world_def job_names job_paths job_keys)

lemma job_try:
  "fst (generate_try app_config (empty_frame_world r) sample_job_id url
     ''temp_thumbnails/123e4567-e89b-42d3-a456-426614174000''
     ''temp_videos/input_123e4567-e89b-42d3-a456-426614174000.mp4'' s)
   = (case outcome r of
        Returned \<Rightarrow>
          Json [(''status'', ''success''),
                (''message'', ''Sprite and VTT generated successfully!''),
                (''sprite_url'', ''/thumbnails/'' @ sample_job_id @ ''/'' @ SPRITE_FILENAME),
                (''vtt_url'', ''/thumbnails/'' @ sample_job_id @ ''/'' @ VTT_FILENAME)] 200
      | CalledProcessError None \<Rightarrow>
          error_json ''Failed to create sprite image. Check Render logs for FFmpeg details.'' 500
      | CalledProcessError (Some m) \<Rightarrow> unexpected_error (UnicodeDecodeError m)
      | TimeoutExpired \<Rightarrow>
          error_json ''Failed to create sprite image. Check Render logs for FFmpeg details.'' 500
      | OtherException \<Rightarrow>
          error_json ''Failed to create sprite image. Check Render logs for FFmpeg details.'' 500)
   \<and> fst (snd (generate_try app_config (empty_frame_world r) sample_job_id url
     ''temp_thumbnails/123e4567-e89b-42d3-a456-426614174000''
     ''temp_videos/input_123e4567-e89b-42d3-a456-426614174000.mp4'' s))
     = [''temp_thumbnails/123e4567-e89b-42d3-a456-426614174000/thumb_0000.jpg'']"
  by (simp add: generate_try_def download_video_def get_video_duration_def
      empty_frame_world_fields job_sampler case_prod_beta create_sprite_image_fst
      create_vtt_file_fst job_paths split: outcome.splits option.splits)

lemma job_try_fs:
  assumes "k \<noteq> [''temp_thumbnails'', ''123e4567-e89b-42d3-a456-426614174000'', ''input_thumbs.txt'']"
    and "k \<noteq> [''temp_thumbnails'', ''123e4567-e89b-42d3-a456-426614174000'',
        ''temp_thumbnails'', ''123e4567-e89b-42d3-a456-426614174000'', ''sprite.jpg'']"
    and "k \<noteq> [''temp_thumbnails'', ''123e4567-e89b-42d3-a456-426614174000'', ''sprite.vtt'']"
  shows "fs (snd (snd (generate_try app_config (empty_frame_world r) sample_job_id url
     ''temp_thumbnails/123e4567-e89b-42d3-a456-426614174000''
     ''temp_videos/input_123e4567-e89b-42d3-a456-426614174000.mp4'' s))) k
   = ((fs s)
        ([''temp_videos'', ''input_123e4567-e89b-42d3-a456-426614174000.mp4''] \<mapsto> File ''video'',
         [''temp_thumbnails'', ''123e4567-e89b-42d3-a456-426614174000'', ''thumb_0000.jpg'']
            \<mapsto> File ''jpeg'',
         [''temp_thumbnails'', ''123e4567-e89b-42d3-a456-426614174000'', ''thumb_0001.jpg'']
            \<mapsto> File [])) k"
  using assms
  by (simp add: generate_try_def download_video_def get_video_duration_def write_file_def
      empty_frame_world_fields job_sampler case_prod_beta create_sprite_image_fst
      create_vtt_file_fst create_sprite_image_fs_other create_vtt_file_fs_other
      job_paths job_keys split: outcome.splits option.splits sum.splits)

text \<open>
  Claim C5 says that after a job the source video and every frame file are gone. The
  \<open>finally\<close> clause of generate removes the paths of \<open>thumbnail_paths\<close>, which holds
  the surviving frames only. In a job of two frames where the tool returns for the frame 1
  with an empty file, the job ends in success or, when the tiling fails, in failure; either
  way the video and the frame 0 are removed, and thumb_0001.jpg is still there.
\<close>

theorem empty_frame_left_behind:
  "(case generate app_config (empty_frame_world r) sample_job_id (Some ''http://example.com/v.mp4'')
           initial_state of
      (resp, s') \<Rightarrow>
        resp = (case outcome r of
                  Returned \<Rightarrow>
                    Json [(''status'', ''success''),
                          (''message'', ''Sprite and VTT generated successfully!''),
                          (''sprite_url'', ''/thumbnails/'' @ sample_job_id @ ''/'' @ SPRITE_FILENAME),
                          (''vtt_url'', ''/thumbnails/'' @ sample_job_id @ ''/'' @ VTT_FILENAME)] 200
                | CalledProcessError None \<Rightarrow>
                    error_json ''Failed to create sprite image. Check Render logs for FFmpeg details.'' 500
                | CalledProcessError (Some m) \<Rightarrow>
                    error_json (''An unexpected server error occurred: '' @ m) 500
                | TimeoutExpired \<Rightarrow>
                    error_json ''Failed to create sprite image. Check Render logs for FFmpeg details.'' 500
                | OtherException \<Rightarrow>
                    error_json ''Failed to create sprite image. Check Render logs for FFmpeg details.'' 500)
      \<and> os_path_exists (fs s')
            (os_path_join (os_path_join THUMBNAIL_FOLDER sample_job_id) (thumb_filename 1))
      \<and> \<not> os_path_exists (fs s')
            (os_path_join (os_path_join THUMBNAIL_FOLDER sample_job_id) (thumb_filename 0))
      \<and> \<not> os_path_exists (fs s')
            (os_path_join UPLOAD_FOLDER (video_filename sample_job_id)))"
proof -
  let ?w = "empty_frame_world r"
  let ?url = "''http://example.com/v.mp4''"
  let ?dir = "''temp_thumbnails/123e4567-e89b-42d3-a456-426614174000''"
  let ?v = "''temp_videos/input_123e4567-e89b-42d3-a456-426614174000.mp4''"
  let ?t0 = "''temp_thumbnails/123e4567-e89b-42d3-a456-426614174000/thumb_0000.jpg''"
  let ?t1 = "''temp_thumbnails/123e4567-e89b-42d3-a456-426614174000/thumb_0001.jpg''"
  let ?f = "(fs initial_state)([''temp_thumbnails''] \<mapsto> Dir,
         [''temp_thumbnails'', ''123e4567-e89b-42d3-a456-426614174000''] \<mapsto> Dir)"
  let ?body = "generate_try app_config ?w sample_job_id ?url ?dir ?v (initial_state\<lparr>fs := ?f\<rparr>)"
  let ?sx = "snd (snd ?body)"
  let ?s' = "remove_if_exists ?w ?t0 (remove_if_exists ?w ?v ?sx)"
  have g: "generate app_config ?w sample_job_id (Some ?url) initial_state = (fst ?body, ?s')"
    unfolding generate_def job_dir job_video
    by (simp add: job_makedirs case_prod_beta generate_finally_def job_try Let_def)
  have x1: "fs ?sx (resolve ?t1) = Some (File [])"
    by (simp add: job_try_fs job_keys)
  have x0: "fs ?sx (resolve ?t0) = Some (File ''jpeg'')"
    by (simp add: job_try_fs job_keys)
  have xv: "fs ?sx (resolve ?v) = Some (File ''video'')"
    by (simp add: job_try_fs job_keys)
  have r1: "fs ?s' (resolve ?t1) = Some (File [])"
    using x1 by (simp add: remove_if_exists_other job_keys)
  have "fs (remove_if_exists ?w ?v ?sx) (resolve ?t0) = Some (File ''jpeg'')"
    using x0 by (simp add: remove_if_exists_other job_keys)
  then have r0: "fs ?s' (resolve ?t0) = None"
    by (rule remove_if_exists_file) (simp add: empty_frame_world_fields)
  have "fs (remove_if_exists ?w ?v ?sx) (resolve ?v) = None"
    using xv by (rule remove_if_exists_file) (simp add: empty_frame_world_fields)
  then have rv: "fs ?s' (resolve ?v) = None"
    by (rule remove_if_exists_none)
  show ?thesis
    unfolding g job_dir job_video thumb_filename_one thumb_filename_zero
    using r1 r0 rv
    by (simp add: os_path_exists_def job_paths job_try unexpected_error_def
        split: outcome.splits option.splits)
qed

subsection \<open>A failed extraction whose error output cannot be decoded\<close>

lemma py_str_sizes: "py_str 0 = ''0''" "py_str 90 = ''90''" "py_str 160 = ''160''"
  "py_str 320 = ''320''" "py_str 480 = ''480''" "py_str 640 = ''640''"
  by (simp_all add: py_str_def zfill_def digits_small digits_large)

lemma num_23: "num_thumbnails app_config 23 = 5"
  by (simp add: num_thumbnails_def app_config_def)

lemma undecodable_sampler:
  "generate_individual_thumbnails app_config (undecodable_world m) v dir (Finite 23) s
   = (Inl (UnicodeDecodeError m),
      s\<lparr>calls := calls s @
         [\<lparr>argv = [''ffmpeg'', ''-ss'', ''00:00:00.000'', ''-i'', v, ''-vframes'', ''1'', ''-vf'',
                    ''scale=160:90'', ''-q:v'', ''2'', os_path_join dir ''thumb_0000.jpg''],
            cwd = None\<rparr>]\<rparr>)"
proof -
  have o: "outcome (extraction (undecodable_world m) 0) = CalledProcessError (Some m)"
    "written (extraction (undecodable_world m) 0) = None"
    by (simp_all add: undecodable_world_def)
  have t: "timestamp_str (actual_timestamp app_config 23 0) = ''00:00:00.000''"
    by (simp add: actual_timestamp_def timestamp_str_zero app_config_def)
  have e: "extract_command app_config ''00:00:00.000'' v (os_path_join dir ''thumb_0000.jpg'')
     = \<lparr>argv = [''ffmpeg'', ''-ss'', ''00:00:00.000'', ''-i'', v, ''-vframes'', ''1'', ''-vf'',
                    ''scale=160:90'', ''-q:v'', ''2'', os_path_join dir ''thumb_0000.jpg''],
            cwd = None\<rparr>"
    by (simp add: extract_command_def py_str_sizes app_config_def)
  show ?thesis
    by (simp add: generate_individual_thumbnails_def num_23 upt_five Let_def run_tool_def
        o t e thumb_filename_zero)
qed

text \<open>
  Claim C2 says that for every duration \<open>d > 0\<close> the sampler requests \<open>ceil(d / k)\<close>
  timestamps. For 23 seconds and the interval 5 that is five. When the first extraction
  ends with a non-zero exit status and a standard error that is not UTF-8, the handler of
  line 134 raises while it builds its log message (line 135), before its \<open>continue\<close>:
  the sampler has run one command, the exception leaves it, and generate answers with its
  \<open>except\<close> clause.
\<close>

theorem sampler_stops_after_undecodable_error:
  "\<lceil>(23 :: real) / real_of_int (THUMBNAIL_INTERVAL app_config)\<rceil> = 5
   \<and> generate_individual_thumbnails app_config (undecodable_world m)
         (os_path_join UPLOAD_FOLDER (video_filename sample_job_id))
         (os_path_join THUMBNAIL_FOLDER sample_job_id) (Finite 23) initial_state
       = (Inl (UnicodeDecodeError m),
          initial_state\<lparr>calls :=
            [\<lparr>argv = [''ffmpeg'', ''-ss'', ''00:00:00.000'', ''-i'',
                       ''temp_videos/input_123e4567-e89b-42d3-a456-426614174000.mp4'',
                       ''-vframes'', ''1'', ''-vf'', ''scale=160:90'', ''-q:v'', ''2'',
                       ''temp_thumbnails/123e4567-e89b-42d3-a456-426614174000/thumb_0000.jpg''],
               cwd = None\<rparr>]\<rparr>)
   \<and> fst (generate app_config (undecodable_world m) sample_job_id
            (Some ''http://example.com/v.mp4'') initial_state)
       = error_json (''An unexpected server error occurred: '' @ m) 500"
proof -
  have n: "\<lceil>(23 :: real) / real_of_int (THUMBNAIL_INTERVAL app_config)\<rceil> = 5"
    by (simp add: app_config_def)
  have c: "calls initial_state = []" by (simp add: initial_state_def)
  have s: "generate_individual_thumbnails app_config (undecodable_world m)
         (os_path_join UPLOAD_FOLDER (video_filename sample_job_id))
         (os_path_join THUMBNAIL_FOLDER sample_job_id) (Finite 23) initial_state
       = (Inl (UnicodeDecodeError m),
          initial_state\<lparr>calls :=
            [\<lparr>argv = [''ffmpeg'', ''-ss'', ''00:00:00.000'', ''-i'',
                       ''temp_videos/input_123e4567-e89b-42d3-a456-426614174000.mp4'',
                       ''-vframes'', ''1'', ''-vf'', ''scale=160:90'', ''-q:v'', ''2'',
                       ''temp_thumbnails/123e4567-e89b-42d3-a456-426614174000/thumb_0000.jpg''],
               cwd = None\<rparr>]\<rparr>)"
    unfolding job_dir job_video by (simp add: undecodable_sampler c job_paths)
  have w: "fetch (undecodable_world m) = Fetched ''video''"
    "probe (undecodable_world m) = Some (Finite 23)"
    by (simp_all add: undecodable_world_def)
  have g: "fst (generate app_config (undecodable_world m) sample_job_id
            (Some ''http://example.com/v.mp4'') initial_state)
       = error_json (''An unexpected server error occurred: '' @ m) 500"
    unfolding generate_def generate_try_def job_dir job_video
    by (simp add: job_makedirs download_video_def get_video_duration_def w undecodable_sampler
        unexpected_error_def Let_def)
  from n s g show ?thesis by simp
qed

subsection \<open>A job in which every step succeeds\<close>

lemma os_path_dirname_join:
  assumes "a \<noteq> []" and "last a \<noteq> CHR ''/''" and "CHR ''/'' \<notin> set b"
  shows "os_path_dirname (a @ ''/'' @ b) = a"
proof -
  have r: "rev (a @ ''/'' @ b) = rev b @ CHR ''/'' # rev a" by simp
  have "dropWhile (\<lambda>c. c \<noteq> CHR ''/'') (rev b @ CHR ''/'' # rev a) = CHR ''/'' # rev a"
    using assms(3) by (auto simp: dropWhile_append3)
  then have h: "rev (dropWhile (\<lambda>c. c \<noteq> CHR ''/'') (rev (a @ ''/'' @ b))) = a @ ''/''"
    by (simp only: r) simp
  have "last a \<in> set (a @ ''/'')" using assms(1) by simp
  moreover have "\<forall>x\<in>set (replicate (length (a @ ''/'')) CHR ''/''). x = CHR ''/''" by simp
  ultimately have n: "a @ ''/'' \<noteq> replicate (length (a @ ''/'')) CHR ''/''"
    using assms(2) by metis
  have "dropWhile (\<lambda>c. c = CHR ''/'') (rev a) = rev a"
    using assms(1,2) by (simp add: dropWhile_eq_self_iff hd_rev)
  then have s: "rstrip_slash (a @ ''/'') = a" by (simp add: rstrip_slash_def)
  show ?thesis
    unfolding os_path_dirname_def h Let_def using n s by simp
qed

lemma job_asset_paths:
  assumes j: "plain_name job_id"
  shows "os_path_dirname (os_path_join (os_path_join THUMBNAIL_FOLDER job_id) SPRITE_FILENAME)
           = os_path_join THUMBNAIL_FOLDER job_id"
    and "os_path_dirname (os_path_join (os_path_join THUMBNAIL_FOLDER job_id) ''input_thumbs.txt'')
           = os_path_join THUMBNAIL_FOLDER job_id"
    and "os_path_join THUMBNAIL_FOLDER job_id \<noteq> []"
proof -
  let ?dir = "THUMBNAIL_FOLDER @ ''/'' @ job_id"
  have d: "os_path_join THUMBNAIL_FOLDER job_id = ?dir" by (rule job_dir_path [OF j])
  have ne: "?dir \<noteq> []" by simp
  have l: "last ?dir \<noteq> CHR ''/''" by (rule last_plain [OF j])
  have p: "plain_name ''input_thumbs.txt''" by (simp add: plain_name_def)
  have a: "os_path_join ?dir SPRITE_FILENAME = ?dir @ ''/'' @ SPRITE_FILENAME"
    by (rule os_path_join_plain [OF ne l plain_folders(3)])
  have b: "os_path_join ?dir ''input_thumbs.txt'' = ?dir @ ''/'' @ ''input_thumbs.txt''"
    by (rule os_path_join_plain [OF ne l p])
  have "os_path_dirname (?dir @ ''/'' @ SPRITE_FILENAME) = ?dir"
    by (rule os_path_dirname_join [OF ne l]) (simp add: SPRITE_FILENAME_def)
  then show "os_path_dirname (os_path_join (os_path_join THUMBNAIL_FOLDER job_id) SPRITE_FILENAME)
           = os_path_join THUMBNAIL_FOLDER job_id"
    by (simp only: d a)
  have "os_path_dirname (?dir @ ''/'' @ ''input_thumbs.txt'') = ?dir"
    by (rule os_path_dirname_join [OF ne l]) simp
  then show "os_path_dirname (os_path_join (os_path_join THUMBNAIL_FOLDER job_id) ''input_thumbs.txt'')
           = os_path_join THUMBNAIL_FOLDER job_id"
    by (simp only: d b)
  show "os_path_join THUMBNAIL_FOLDER job_id \<noteq> []" by (simp only: d) simp
qed

text \<open>When the download, the probe, the composer and the writer succeed on a non-empty
  list of frames, generate answers with the two URLs; the cue file it leaves is the text
  of \<open>vtt_text\<close> for the number of frames and the interval of lines 290 to 296, and the
  one command run after the sampling pass is the tiling command.\<close>

lemma job_success:
  assumes j: "plain_name job_id" and u: "url \<noteq> []"
    and mk: "makedirs (os_path_join THUMBNAIL_FOLDER job_id) (fs s) = Some f"
    and fe: "fetch w = Fetched content" and pr: "probe w = Some (Finite d)" and d: "0 < d"
    and sm: "generate_individual_thumbnails cfg w
           (os_path_join UPLOAD_FOLDER (video_filename job_id))
           (os_path_join THUMBNAIL_FOLDER job_id) (Finite d)
           (s\<lparr>fs := write_file (os_path_join UPLOAD_FOLDER (video_filename job_id)) content f,
               calls := calls s @ [probe_command (os_path_join UPLOAD_FOLDER (video_filename job_id))]\<rparr>)
         = (Inr ps, s3)"
    and ne: "ps \<noteq> []" and mw: "manifest_writable w" and tl: "outcome (tile w) = Returned"
    and vw: "vtt_writable w"
  shows "fst (generate cfg w job_id (Some url) s)
         = Json [(''status'', ''success''),
                 (''message'', ''Sprite and VTT generated successfully!''),
                 (''sprite_url'', ''/thumbnails/'' @ job_id @ ''/'' @ SPRITE_FILENAME),
                 (''vtt_url'', ''/thumbnails/'' @ job_id @ ''/'' @ VTT_FILENAME)] 200"
    and "fs (snd (generate cfg w job_id (Some url) s))
           (resolve (os_path_join (os_path_join THUMBNAIL_FOLDER job_id) VTT_FILENAME))
         = Some (File (vtt_text cfg (length ps) (of_int (thumbnail_interval_for_vtt cfg (Finite d)))
                         (''/thumbnails/'' @ job_id @ ''/'' @ SPRITE_FILENAME)))"
    and "calls (snd (generate cfg w job_id (Some url) s))
         = calls s3 @ [tile_command cfg
                         (os_path_join (os_path_join THUMBNAIL_FOLDER job_id) ''input_thumbs.txt'')
                         (num_rows cfg (length ps))
                         (os_path_join (os_path_join THUMBNAIL_FOLDER job_id) SPRITE_FILENAME)
                         (os_path_join THUMBNAIL_FOLDER job_id)]"
proof -
  let ?v = "os_path_join UPLOAD_FOLDER (video_filename job_id)"
  let ?dir = "os_path_join THUMBNAIL_FOLDER job_id"
  let ?out = "os_path_join ?dir SPRITE_FILENAME"
  let ?u = "''/thumbnails/'' @ job_id @ ''/'' @ SPRITE_FILENAME"
  let ?iv = "real_of_int (thumbnail_interval_for_vtt cfg (Finite d))"
  let ?k = "[THUMBNAIL_FOLDER, job_id, VTT_FILENAME]"
  note ap = job_asset_paths [OF j]
  have dl: "download_video w url ?v (s\<lparr>fs := f\<rparr>) = (True, s\<lparr>fs := write_file ?v content f\<rparr>)"
    by (simp add: download_video_def fe)
  have gd: "get_video_duration w ?v (s\<lparr>fs := write_file ?v content f\<rparr>)
      = (Some (Finite d), s\<lparr>fs := write_file ?v content f, calls := calls s @ [probe_command ?v]\<rparr>)"
    by (simp add: get_video_duration_def pr)
  have "fst (create_sprite_image cfg w ps ?out s3) = Inr True"
    using create_sprite_image_fst [OF ne mw, of ?out cfg s3] ap tl by simp
  then obtain s4 where cs: "create_sprite_image cfg w ps ?out s3 = (Inr True, s4)"
    by (cases "create_sprite_image cfg w ps ?out s3") simp
  have "fst (create_vtt_file cfg w ?dir (length ps) ?iv ?u s4) = True"
    by (simp add: create_vtt_file_fst vw)
  then obtain s5 where cv: "create_vtt_file cfg w ?dir (length ps) ?iv ?u s4 = (True, s5)"
    by (cases "create_vtt_file cfg w ?dir (length ps) ?iv ?u s4") simp
  have s4: "s4 = snd (create_sprite_image cfg w ps ?out s3)" using cs by simp
  have s5: "s5 = snd (create_vtt_file cfg w ?dir (length ps) ?iv ?u s4)" using cv by simp
  have gt: "generate_try cfg w job_id url ?dir ?v (s\<lparr>fs := f\<rparr>)
      = (Json [(''status'', ''success''),
               (''message'', ''Sprite and VTT generated successfully!''),
               (''sprite_url'', ''/thumbnails/'' @ job_id @ ''/'' @ SPRITE_FILENAME),
               (''vtt_url'', ''/thumbnails/'' @ job_id @ ''/'' @ VTT_FILENAME)] 200, ps, s5)"
    unfolding generate_try_def using ne cs cv d by (simp add: dl gd sm)
  have g: "generate cfg w job_id (Some url) s
      = (Json [(''status'', ''success''),
               (''message'', ''Sprite and VTT generated successfully!''),
               (''sprite_url'', ''/thumbnails/'' @ job_id @ ''/'' @ SPRITE_FILENAME),
               (''vtt_url'', ''/thumbnails/'' @ job_id @ ''/'' @ VTT_FILENAME)] 200,
         generate_finally w ?v ps s5)"
    using u by (simp add: generate_def Let_def mk gt)
  show "fst (generate cfg w job_id (Some url) s)
         = Json [(''status'', ''success''),
                 (''message'', ''Sprite and VTT generated successfully!''),
                 (''sprite_url'', ''/thumbnails/'' @ job_id @ ''/'' @ SPRITE_FILENAME),
                 (''vtt_url'', ''/thumbnails/'' @ job_id @ ''/'' @ VTT_FILENAME)] 200"
    by (simp add: g)
  have k: "resolve (os_path_join ?dir VTT_FILENAME) = ?k"
    by (rule job_file_key [OF j plain_folders(4)])
  have kv: "?k \<noteq> resolve ?v" by (simp add: job_video_key [OF j])
  have "fst (sample_frames cfg w ?v ?dir d [0..<num_thumbnails cfg d] []
          (s\<lparr>fs := write_file ?v content f, calls := calls s @ [probe_command ?v]\<rparr>)) = Inr ps"
    using sm by (simp add: generate_individual_thumbnails_def)
  from sample_frames_paths [OF this]
  have "\<forall>p\<in>set ps. \<exists>i. p = os_path_join ?dir (thumb_filename i)" by auto
  moreover have "\<And>i. ?k \<noteq> resolve (os_path_join ?dir (thumb_filename i))"
    using thumb_filename_not_asset(2) [symmetric]
    by (simp add: job_file_key [OF j plain_thumb_filename])
  ultimately have kp: "\<forall>p\<in>set ps. ?k \<noteq> resolve p"
    by metis
  have "fs (generate_finally w ?v ps s5) ?k = fs s5 ?k"
    unfolding generate_finally_def
    by (simp add: fold_remove_other [OF kp] remove_if_exists_other [OF kv])
  also have "fs s5 ?k = Some (File (vtt_text cfg (length ps) ?iv ?u))"
    using create_vtt_file_written [OF vw, of cfg ?dir "length ps" ?iv ?u s4]
    by (simp only: k s5)
  finally show "fs (snd (generate cfg w job_id (Some url) s))
           (resolve (os_path_join (os_path_join THUMBNAIL_FOLDER job_id) VTT_FILENAME))
         = Some (File (vtt_text cfg (length ps) (of_int (thumbnail_interval_for_vtt cfg (Finite d)))
                         (''/thumbnails/'' @ job_id @ ''/'' @ SPRITE_FILENAME)))"
    by (simp add: g k)
  have "calls (generate_finally w ?v ps s5) = calls s4"
    unfolding generate_finally_def
    by (simp add: fold_remove_calls remove_if_exists_calls create_vtt_file_calls s5)
  also have "calls s4 = calls s3 @ [tile_command cfg (os_path_join ?dir ''input_thumbs.txt'')
                         (num_rows cfg (length ps)) ?out ?dir]"
    using create_sprite_image_calls [OF ne mw, of cfg ?out s3] by (simp add: ap s4)
  finally show "calls (snd (generate cfg w job_id (Some url) s))
         = calls s3 @ [tile_command cfg
                         (os_path_join (os_path_join THUMBNAIL_FOLDER job_id) ''input_thumbs.txt'')
                         (num_rows cfg (length ps))
                         (os_path_join (os_path_join THUMBNAIL_FOLDER job_id) SPRITE_FILENAME)
                         (os_path_join THUMBNAIL_FOLDER job_id)]"
    by (simp add: g)
qed

lemma job_all_frames:
  assumes j: "plain_name job_id" and u: "url \<noteq> []"
    and mk: "makedirs (os_path_join THUMBNAIL_FOLDER job_id) (fs s) = Some f"
    and fe: "fetch w = Fetched content" and pr: "probe w = Some (Finite d)" and d: "0 < d"
    and n: "0 < num_thumbnails cfg d"
    and ex: "\<forall>i\<in>set [0..<num_thumbnails cfg d]. outcome (extraction w i) = Returned
               \<and> (\<exists>c. written (extraction w i) = Some c \<and> c \<noteq> [])"
    and mw: "manifest_writable w" and tl: "outcome (tile w) = Returned"
    and vw: "vtt_writable w"
  shows "fst (generate cfg w job_id (Some url) s)
         = Json [(''status'', ''success''),
                 (''message'', ''Sprite and VTT generated successfully!''),
                 (''sprite_url'', ''/thumbnails/'' @ job_id @ ''/'' @ SPRITE_FILENAME),
                 (''vtt_url'', ''/thumbnails/'' @ job_id @ ''/'' @ VTT_FILENAME)] 200"
    and "fs (snd (generate cfg w job_id (Some url) s))
           (resolve (os_path_join (os_path_join THUMBNAIL_FOLDER job_id) VTT_FILENAME))
         = Some (File (vtt_text cfg (num_thumbnails cfg d)
                         (of_int (thumbnail_interval_for_vtt cfg (Finite d)))
                         (''/thumbnails/'' @ job_id @ ''/'' @ SPRITE_FILENAME)))"
    and "calls (snd (generate cfg w job_id (Some url) s))
         = calls s @ [probe_command (os_path_join UPLOAD_FOLDER (video_filename job_id))]
           @ map (\<lambda>i. extract_command cfg (timestamp_str (actual_timestamp cfg d i))
                        (os_path_join UPLOAD_FOLDER (video_filename job_id))
                        (os_path_join (os_path_join THUMBNAIL_FOLDER job_id) (thumb_filename i)))
                 [0..<num_thumbnails cfg d]
           @ [tile_command cfg
                (os_path_join (os_path_join THUMBNAIL_FOLDER job_id) ''input_thumbs.txt'')
                (num_rows cfg (num_thumbnails cfg d))
                (os_path_join (os_path_join THUMBNAIL_FOLDER job_id) SPRITE_FILENAME)
                (os_path_join THUMBNAIL_FOLDER job_id)]"
proof -
  let ?v = "os_path_join UPLOAD_FOLDER (video_filename job_id)"
  let ?dir = "os_path_join THUMBNAIL_FOLDER job_id"
  let ?s2 = "s\<lparr>fs := write_file ?v content f, calls := calls s @ [probe_command ?v]\<rparr>"
  let ?ps = "map (\<lambda>i. os_path_join ?dir (thumb_filename i)) [0..<num_thumbnails cfg d]"
  have fr: "fst (sample_frames cfg w ?v ?dir d [0..<num_thumbnails cfg d] [] ?s2) = Inr ?ps"
    using sample_frames_all_survive [OF ex, of cfg ?v ?dir d "[]" ?s2] by simp
  then obtain s3 where sf: "sample_frames cfg w ?v ?dir d [0..<num_thumbnails cfg d] [] ?s2
      = (Inr ?ps, s3)"
    by (cases "sample_frames cfg w ?v ?dir d [0..<num_thumbnails cfg d] [] ?s2") simp
  then have sm: "generate_individual_thumbnails cfg w ?v ?dir (Finite d) ?s2 = (Inr ?ps, s3)"
    by (simp add: generate_individual_thumbnails_def)
  have ne: "?ps \<noteq> []" using n by simp
  have len: "length ?ps = num_thumbnails cfg d" by simp
  have c3: "calls s3 = calls ?s2 @ map (\<lambda>i. extract_command cfg
                 (timestamp_str (actual_timestamp cfg d i)) ?v
                 (os_path_join ?dir (thumb_filename i))) [0..<num_thumbnails cfg d]"
    using sample_frames_returned_calls [OF fr] sf by simp
  note js = job_success [OF j u mk fe pr d sm ne mw tl vw]
  show "fst (generate cfg w job_id (Some url) s)
         = Json [(''status'', ''success''),
                 (''message'', ''Sprite and VTT generated successfully!''),
                 (''sprite_url'', ''/thumbnails/'' @ job_id @ ''/'' @ SPRITE_FILENAME),
                 (''vtt_url'', ''/thumbnails/'' @ job_id @ ''/'' @ VTT_FILENAME)] 200"
    by (rule js(1))
  show "fs (snd (generate cfg w job_id (Some url) s))
           (resolve (os_path_join (os_path_join THUMBNAIL_FOLDER job_id) VTT_FILENAME))
         = Some (File (vtt_text cfg (num_thumbnails cfg d)
                         (of_int (thumbnail_interval_for_vtt cfg (Finite d)))
                         (''/thumbnails/'' @ job_id @ ''/'' @ SPRITE_FILENAME)))"
    using js(2) by (simp only: len)
  show "calls (snd (generate cfg w job_id (Some url) s))
         = calls s @ [probe_command (os_path_join UPLOAD_FOLDER (video_filename job_id))]
           @ map (\<lambda>i. extract_command cfg (timestamp_str (actual_timestamp cfg d i))
                        (os_path_join UPLOAD_FOLDER (video_filename job_id))
                        (os_path_join (os_path_join THUMBNAIL_FOLDER job_id) (thumb_filename i)))
                 [0..<num_thumbnails cfg d]
           @ [tile_command cfg
                (os_path_join (os_path_join THUMBNAIL_FOLDER job_id) ''input_thumbs.txt'')
                (num_rows cfg (num_thumbnails cfg d))
                (os_path_join (os_path_join THUMBNAIL_FOLDER job_id) SPRITE_FILENAME)
                (os_path_join THUMBNAIL_FOLDER job_id)]"
    using js(3) by (simp only: len c3) simp
qed

lemma job_path_strings:
  assumes j: "plain_name job_id"
  shows "os_path_join UPLOAD_FOLDER (video_filename job_id) = ''temp_videos/input_'' @ job_id @ ''.mp4''"
    and "os_path_join THUMBNAIL_FOLDER job_id = ''temp_thumbnails/'' @ job_id"
    and "os_path_join (os_path_join THUMBNAIL_FOLDER job_id) ''input_thumbs.txt''
           = ''temp_thumbnails/'' @ job_id @ ''/input_thumbs.txt''"
    and "os_path_join (os_path_join THUMBNAIL_FOLDER job_id) SPRITE_FILENAME
           = ''temp_thumbnails/'' @ job_id @ ''/sprite.jpg''"
    and "os_path_join (os_path_join THUMBNAIL_FOLDER job_id) (thumb_filename i)
           = ''temp_thumbnails/'' @ job_id @ ''/'' @ thumb_filename i"
    and "resolve (os_path_join (os_path_join THUMBNAIL_FOLDER job_id) VTT_FILENAME)
           = [''temp_thumbnails'', job_id, ''sprite.vtt'']"
proof -
  let ?dir = "THUMBNAIL_FOLDER @ ''/'' @ job_id"
  have d: "os_path_join THUMBNAIL_FOLDER job_id = ?dir" by (rule job_dir_path [OF j])
  have ne: "?dir \<noteq> []" by simp
  have l: "last ?dir \<noteq> CHR ''/''" by (rule last_plain [OF j])
  have p: "plain_name ''input_thumbs.txt''" by (simp add: plain_name_def)
  show "os_path_join UPLOAD_FOLDER (video_filename job_id) = ''temp_videos/input_'' @ job_id @ ''.mp4''"
    using os_path_join_plain [OF _ _ plain_video_name [OF j], of UPLOAD_FOLDER]
    by (simp add: UPLOAD_FOLDER_def video_filename_def)
  show "os_path_join THUMBNAIL_FOLDER job_id = ''temp_thumbnails/'' @ job_id"
    unfolding d by (simp add: THUMBNAIL_FOLDER_def)
  show "os_path_join (os_path_join THUMBNAIL_FOLDER job_id) ''input_thumbs.txt''
           = ''temp_thumbnails/'' @ job_id @ ''/input_thumbs.txt''"
    using os_path_join_plain [OF ne l p] unfolding d by (simp add: THUMBNAIL_FOLDER_def)
  show "os_path_join (os_path_join THUMBNAIL_FOLDER job_id) SPRITE_FILENAME
           = ''temp_thumbnails/'' @ job_id @ ''/sprite.jpg''"
    using os_path_join_plain [OF ne l plain_folders(3)] unfolding d
    by (simp add: THUMBNAIL_FOLDER_def SPRITE_FILENAME_def)
  show "os_path_join (os_path_join THUMBNAIL_FOLDER job_id) (thumb_filename i)
           = ''temp_thumbnails/'' @ job_id @ ''/'' @ thumb_filename i"
    using os_path_join_plain [OF ne l plain_thumb_filename, of i] unfolding d
    by (simp add: THUMBNAIL_FOLDER_def)
  show "resolve (os_path_join (os_path_join THUMBNAIL_FOLDER job_id) VTT_FILENAME)
           = [''temp_thumbnails'', job_id, ''sprite.vtt'']"
    unfolding job_file_key [OF j plain_folders(4)]
    by (simp add: THUMBNAIL_FOLDER_def VTT_FILENAME_def)
qed

lemma vtt_text_one:
  "vtt_text cfg 1 iv u = ''WEBVTT'' @ [CHR 0x0A, CHR 0x0A]
     @ ''00:00:00.000 --> '' @ timestamp_str (min iv 86399.999) @ [CHR 0x0A]
     @ u @ ''#xywh=0,0,'' @ py_str (THUMB_WIDTH cfg) @ '','' @ py_str (THUMB_HEIGHT cfg)
     @ [CHR 0x0A, CHR 0x0A]"
  by (simp add: vtt_text_def cue_entries_def cue_block_def cue_time_line_def cue_image_line_def
      cue_entry_def Let_def timestamp_str_zero py_str_sizes(1))

lemma timestamp_str_whole:
  "timestamp_str 1 = ''00:00:01.000''" "timestamp_str 5 = ''00:00:05.000''"
  "timestamp_str 10 = ''00:00:10.000''" "timestamp_str 15 = ''00:00:15.000''"
  "timestamp_str 20 = ''00:00:20.000''" "timestamp_str 25 = ''00:00:25.000''"
  by code_simp+

subsection \<open>Short videos\<close>

text \<open>
  Claim C1. A job on a video whose probed duration \<open>d\<close> is positive and below the
  configured interval (of a day at most), in which the one extraction, the composer and
  the writer succeed: the interval of lines 290 to 296 is \<open>max(1, floor(d / 2))\<close>, and it
  is the one that reaches the cue file, whose single entry runs from 0 to that interval;
  the sampler goes on with the configured interval and runs one extraction, at
  \<open>min(0, d - 0.1)\<close>, which is 0 from a tenth of a second on, between the probe and the
  tiling command. For three seconds and the interval five of app.py the cue interval is 1
  and the one timestamp is 0.
\<close>

theorem short_video_interval:
  assumes "plain_name job_id" and "url \<noteq> []"
    and "makedirs (os_path_join THUMBNAIL_FOLDER job_id) (fs s) = Some f"
    and "fetch w = Fetched content" and "probe w = Some (Finite d)"
    and "0 < d" and "d < of_int (THUMBNAIL_INTERVAL cfg)"
    and "THUMBNAIL_INTERVAL cfg \<le> 86400"
    and "outcome (extraction w 0) = Returned"
    and "written (extraction w 0) = Some c" and "c \<noteq> []"
    and "manifest_writable w" and "outcome (tile w) = Returned" and "vtt_writable w"
  shows "thumbnail_interval_for_vtt cfg (Finite d) = max 1 \<lfloor>d / 2\<rfloor>
    \<and> num_thumbnails cfg d = 1
    \<and> fst (generate cfg w job_id (Some url) s)
        = Json [(''status'', ''success''),
                (''message'', ''Sprite and VTT generated successfully!''),
                (''sprite_url'', ''/thumbnails/'' @ job_id @ ''/sprite.jpg''),
                (''vtt_url'', ''/thumbnails/'' @ job_id @ ''/sprite.vtt'')] 200
    \<and> fs (snd (generate cfg w job_id (Some url) s)) [''temp_thumbnails'', job_id, ''sprite.vtt'']
        = Some (File (''WEBVTT'' @ [CHR 0x0A, CHR 0x0A]
            @ ''00:00:00.000 --> '' @ timestamp_str (of_int (max 1 \<lfloor>d / 2\<rfloor>))
            @ [CHR 0x0A]
            @ ''/thumbnails/'' @ job_id @ ''/sprite.jpg#xywh=0,0,'' @ py_str (THUMB_WIDTH cfg)
            @ '','' @ py_str (THUMB_HEIGHT cfg) @ [CHR 0x0A, CHR 0x0A]))
    \<and> calls (snd (generate cfg w job_id (Some url) s))
        = calls s
          @ [\<lparr>argv = [''ffprobe'', ''-v'', ''error'', ''-show_entries'', ''format=duration'', ''-of'',
                      ''default=noprint_wrappers=1:nokey=1'',
                      ''temp_videos/input_'' @ job_id @ ''.mp4''],
              cwd = None\<rparr>,
             \<lparr>argv = [''ffmpeg'', ''-ss'',
                      (if 0.1 \<le> d then ''00:00:00.000'' else timestamp_str (d - 0.1)), ''-i'',
                      ''temp_videos/input_'' @ job_id @ ''.mp4'', ''-vframes'', ''1'', ''-vf'',
                      ''scale='' @ py_str (THUMB_WIDTH cfg) @ '':'' @ py_str (THUMB_HEIGHT cfg),
                      ''-q:v'', ''2'', ''temp_thumbnails/'' @ job_id @ ''/thumb_0000.jpg''],
              cwd = None\<rparr>,
             \<lparr>argv = [''ffmpeg'', ''-f'', ''concat'', ''-safe'', ''0'', ''-i'',
                      ''temp_thumbnails/'' @ job_id @ ''/input_thumbs.txt'', ''-vf'',
                      ''tile='' @ py_str (THUMBS_PER_ROW cfg) @ ''x'' @ py_str (num_rows cfg 1),
                      ''-q:v'', ''2'', ''temp_thumbnails/'' @ job_id @ ''/sprite.jpg''],
              cwd = Some (''temp_thumbnails/'' @ job_id)\<rparr>]
    \<and> thumbnail_interval_for_vtt app_config (Finite 3) = 1
    \<and> map (actual_timestamp app_config 3) [0..<num_thumbnails app_config 3] = [0]"
proof -
  have n: "num_thumbnails cfg d = 1" by (rule num_thumbnails_short [OF assms(6,7)])
  have iv: "thumbnail_interval_for_vtt cfg (Finite d) = max 1 \<lfloor>d / 2\<rfloor>"
    using assms(6,7) by simp
  have pos: "0 < num_thumbnails cfg d" by (simp add: n)
  have ex: "\<forall>i\<in>set [0..<num_thumbnails cfg d]. outcome (extraction w i) = Returned
               \<and> (\<exists>c. written (extraction w i) = Some c \<and> c \<noteq> [])"
    using assms(9,10,11) by (simp add: n)
  note ps = job_path_strings [OF assms(1)]
  note jf = job_all_frames [OF assms(1,2,3,4,5,6) pos ex assms(12,13,14)]
  define m where "m = max 1 \<lfloor>d / 2\<rfloor>"
  have "real_of_int (THUMBNAIL_INTERVAL cfg) \<le> 86400" using assms(8) by linarith
  then have "d / 2 < 86400" using assms(7) by linarith
  then have "\<lfloor>d / 2\<rfloor> < 86400" by (simp add: floor_less_iff)
  then have "m \<le> 86399" by (simp add: m_def)
  then have "real_of_int m \<le> 86399" by linarith
  then have "real_of_int m \<le> 86399.999" by simp
  then have "min (real_of_int m) 86399.999 = real_of_int m" by (rule min_absorb1)
  then have cap: "min (real_of_int (max 1 \<lfloor>d / 2\<rfloor>)) 86399.999 = real_of_int (max 1 \<lfloor>d / 2\<rfloor>)"
    by (simp only: m_def)
  have r: "fst (generate cfg w job_id (Some url) s)
        = Json [(''status'', ''success''),
                (''message'', ''Sprite and VTT generated successfully!''),
                (''sprite_url'', ''/thumbnails/'' @ job_id @ ''/sprite.jpg''),
                (''vtt_url'', ''/thumbnails/'' @ job_id @ ''/sprite.vtt'')] 200"
    using jf(1) by (simp add: SPRITE_FILENAME_def VTT_FILENAME_def)
  have v: "fs (snd (generate cfg w job_id (Some url) s)) [''temp_thumbnails'', job_id, ''sprite.vtt'']
        = Some (File (''WEBVTT'' @ [CHR 0x0A, CHR 0x0A]
            @ ''00:00:00.000 --> '' @ timestamp_str (of_int (max 1 \<lfloor>d / 2\<rfloor>))
            @ [CHR 0x0A]
            @ ''/thumbnails/'' @ job_id @ ''/sprite.jpg#xywh=0,0,'' @ py_str (THUMB_WIDTH cfg)
            @ '','' @ py_str (THUMB_HEIGHT cfg) @ [CHR 0x0A, CHR 0x0A]))"
    using jf(2) unfolding ps(6) n iv vtt_text_one cap by (simp add: SPRITE_FILENAME_def)
  have t: "timestamp_str (actual_timestamp cfg d 0)
      = (if 0.1 \<le> d then ''00:00:00.000'' else timestamp_str (d - 0.1))"
    by (simp add: actual_timestamp_def timestamp_str_zero min_def)
  have c: "calls (snd (generate cfg w job_id (Some url) s))
        = calls s
          @ [\<lparr>argv = [''ffprobe'', ''-v'', ''error'', ''-show_entries'', ''format=duration'', ''-of'',
                      ''default=noprint_wrappers=1:nokey=1'',
                      ''temp_videos/input_'' @ job_id @ ''.mp4''],
              cwd = None\<rparr>,
             \<lparr>argv = [''ffmpeg'', ''-ss'',
                      (if 0.1 \<le> d then ''00:00:00.000'' else timestamp_str (d - 0.1)), ''-i'',
                      ''temp_videos/input_'' @ job_id @ ''.mp4'', ''-vframes'', ''1'', ''-vf'',
                      ''scale='' @ py_str (THUMB_WIDTH cfg) @ '':'' @ py_str (THUMB_HEIGHT cfg),
                      ''-q:v'', ''2'', ''temp_thumbnails/'' @ job_id @ ''/thumb_0000.jpg''],
              cwd = None\<rparr>,
             \<lparr>argv = [''ffmpeg'', ''-f'', ''concat'', ''-safe'', ''0'', ''-i'',
                      ''temp_thumbnails/'' @ job_id @ ''/input_thumbs.txt'', ''-vf'',
                      ''tile='' @ py_str (THUMBS_PER_ROW cfg) @ ''x'' @ py_str (num_rows cfg 1),
                      ''-q:v'', ''2'', ''temp_thumbnails/'' @ job_id @ ''/sprite.jpg''],
              cwd = Some (''temp_thumbnails/'' @ job_id)\<rparr>]"
    using jf(3) unfolding ps(1,3,4,5) n unfolding ps(2)
    by (simp add: probe_command_def extract_command_def tile_command_def t thumb_filename_zero)
  have a: "thumbnail_interval_for_vtt app_config (Finite 3) = 1"
    by (simp add: app_config_def)
  have "num_thumbnails app_config 3 = 1"
    by (rule num_thumbnails_short) (simp_all add: app_config_def)
  then have b: "map (actual_timestamp app_config 3) [0..<num_thumbnails app_config 3] = [0]"
    by (simp add: actual_timestamp_def)
  from iv n r v c a b show ?thesis by (simp only: simp_thms)
qed

lemma quiet_world_fields:
  "fetch (quiet_world d) = Fetched ''video''" "probe (quiet_world d) = Some (Finite d)"
  "outcome (extraction (quiet_world d) i) = Returned"
  "written (extraction (quiet_world d) i) = Some ''jpeg''"
  "manifest_writable (quiet_world d)" "outcome (tile (quiet_world d)) = Returned"
  "vtt_writable (quiet_world d)"
  by (simp_all add: quiet_world_def)

lemma py_str_counts: "py_str 1 = ''1''" "py_str 2 = ''2''" "py_str 10 = ''10''"
  by (simp_all add: py_str_def zfill_def digits_small digits_large)

lemma app_config_fields: "THUMB_WIDTH app_config = 160" "THUMB_HEIGHT app_config = 90"
  "THUMBS_PER_ROW app_config = 10" "THUMBNAIL_INTERVAL app_config = 5"
  by (simp_all add: app_config_def)

theorem short_video_interval_witness:
  "plain_name sample_job_id \<and> (0::real) < 3 \<and> (3::real) < of_int (THUMBNAIL_INTERVAL app_config)
   \<and> fst (generate app_config (quiet_world 3) sample_job_id (Some ''http://example.com/v.mp4'')
            initial_state)
       = Json [(''status'', ''success''),
               (''message'', ''Sprite and VTT generated successfully!''),
               (''sprite_url'', ''/thumbnails/123e4567-e89b-42d3-a456-426614174000/sprite.jpg''),
               (''vtt_url'', ''/thumbnails/123e4567-e89b-42d3-a456-426614174000/sprite.vtt'')] 200
   \<and> fs (snd (generate app_config (quiet_world 3) sample_job_id
                 (Some ''http://example.com/v.mp4'') initial_state))
         [''temp_thumbnails'', ''123e4567-e89b-42d3-a456-426614174000'', ''sprite.vtt'']
       = Some (File (''WEBVTT'' @ [CHR 0x0A, CHR 0x0A]
           @ ''00:00:00.000 --> 00:00:01.000'' @ [CHR 0x0A]
           @ ''/thumbnails/123e4567-e89b-42d3-a456-426614174000/sprite.jpg#xywh=0,0,160,90''
           @ [CHR 0x0A, CHR 0x0A]))
   \<and> calls (snd (generate app_config (quiet_world 3) sample_job_id
                    (Some ''http://example.com/v.mp4'') initial_state))
       = [\<lparr>argv = [''ffprobe'', ''-v'', ''error'', ''-show_entries'', ''format=duration'', ''-of'',
                    ''default=noprint_wrappers=1:nokey=1'',
                    ''temp_videos/input_123e4567-e89b-42d3-a456-426614174000.mp4''],
            cwd = None\<rparr>,
          \<lparr>argv = [''ffmpeg'', ''-ss'', ''00:00:00.000'', ''-i'',
                    ''temp_videos/input_123e4567-e89b-42d3-a456-426614174000.mp4'',
                    ''-vframes'', ''1'', ''-vf'', ''scale=160:90'', ''-q:v'', ''2'',
                    ''temp_thumbnails/123e4567-e89b-42d3-a456-426614174000/thumb_0000.jpg''],
            cwd = None\<rparr>,
          \<lparr>argv = [''ffmpeg'', ''-f'', ''concat'', ''-safe'', ''0'', ''-i'',
                    ''temp_thumbnails/123e4567-e89b-42d3-a456-426614174000/input_thumbs.txt'',
                    ''-vf'', ''tile=10x1'', ''-q:v'', ''2'',
                    ''temp_thumbnails/123e4567-e89b-42d3-a456-426614174000/sprite.jpg''],
            cwd = Some ''temp_thumbnails/123e4567-e89b-42d3-a456-426614174000''\<rparr>]"
proof -
  let ?f = "(fs initial_state)([''temp_thumbnails''] \<mapsto> Dir,
         [''temp_thumbnails'', ''123e4567-e89b-42d3-a456-426614174000''] \<mapsto> Dir)"
  have u: "''http://example.com/v.mp4'' \<noteq> []" by simp
  have mk: "makedirs (os_path_join THUMBNAIL_FOLDER sample_job_id) (fs initial_state) = Some ?f"
    unfolding job_dir by (rule job_makedirs)
  have d: "(0::real) < 3" "(3::real) < of_int (THUMBNAIL_INTERVAL app_config)"
    by (simp_all add: app_config_def)
  have c: "''jpeg'' \<noteq> []" by simp
  have k: "THUMBNAIL_INTERVAL app_config \<le> 86400" by (simp add: app_config_def)
  have e: "timestamp_str (real_of_int (max 1 \<lfloor>(3::real) / 2\<rfloor>)) = ''00:00:01.000''"
    by (simp add: timestamp_str_whole)
  have r: "num_rows app_config 1 = 1" by (simp add: num_rows_def app_config_def)
  have i: "calls initial_state = []" by (simp add: initial_state_def)
  note t = short_video_interval [OF sample_job_id_plain u mk quiet_world_fields(1,2) d k
      quiet_world_fields(3,4) c quiet_world_fields(5,6,7)]
  show ?thesis
    using sample_job_id_plain d t
    unfolding e r i app_config_fields py_str_sizes py_str_counts
    by (simp add: sample_job_id_def)
qed

subsection \<open>A video of 23 seconds\<close>





subsection \<open>Grid geometry\<close>








end
